theory Spec2Isabelle
  imports Complex_Main
begin

section \<open>Python values\<close>

text \<open>
  The API client and the map screen exchange decoded JSON: Python dicts, lists, strings,
  numbers, booleans and \<open>None\<close>. A dict is an association list read with \<open>map_of\<close>
  (the first binding of a key is the dict's entry). Numbers are rationals, so that the
  integer 7 and the float 7.0 are the same value, as \<open>7 == 7.0\<close> holds in Python; NaN and
  the infinities, which JSON does not have, are left out. Strings are lists of characters
  with code points below 256; the Polish diacritics of the source's message literals are
  written without their marks.
\<close>

datatype json =
    JNull
  | JBool bool
  | JNum rat
  | JStr string
  | JList "json list"
  | JObj "(string \<times> json) list"

text \<open>The exceptions of the source, each carrying what \<open>str(error)\<close> prints.\<close>

datatype exn =
    KeyError string
  | TypeError string
  | AttributeError string
  | ValueError string
  | ClientError string
  | TimeoutError string
  | JSONDecodeError string
  | KeyringError string
  | APIConnectionError string
  | APIAuthenticationError string

fun str_exn :: "exn \<Rightarrow> string" where
  "str_exn (KeyError m) = m"
| "str_exn (TypeError m) = m"
| "str_exn (AttributeError m) = m"
| "str_exn (ValueError m) = m"
| "str_exn (ClientError m) = m"
| "str_exn (TimeoutError m) = m"
| "str_exn (JSONDecodeError m) = m"
| "str_exn (KeyringError m) = m"
| "str_exn (APIConnectionError m) = m"
| "str_exn (APIAuthenticationError m) = m"

text \<open>Python truthiness: \<open>if x:\<close> and \<open>not x\<close>.\<close>

fun truthy :: "json \<Rightarrow> bool" where
  "truthy JNull = False"
| "truthy (JBool b) = b"
| "truthy (JNum n) = (n \<noteq> 0)"
| "truthy (JStr s) = (s \<noteq> [])"
| "truthy (JList xs) = (xs \<noteq> [])"
| "truthy (JObj kvs) = (kvs \<noteq> [])"

text \<open>
  Python \<open>==\<close> on decoded JSON. \<open>bool\<close> is a subclass of \<open>int\<close>, so \<open>True == 1\<close> and
  \<open>False == 0\<close>; \<open>canon\<close> rewrites booleans to those numbers, inside lists and dicts too,
  and two values are equal when their rewritten forms are the same. Dicts are compared as
  their lists of entries, in order; the values compared below are order ids and status
  strings, scalars, for which that makes no difference.
\<close>

primrec canon :: "json \<Rightarrow> json" where
  "canon JNull = JNull"
| "canon (JBool b) = JNum (if b then 1 else 0)"
| "canon (JNum n) = JNum n"
| "canon (JStr s) = JStr s"
| "canon (JList xs) = JList (map canon xs)"
| "canon (JObj kvs) = JObj (map (map_prod id canon) kvs)"

definition py_eq :: "json \<Rightarrow> json \<Rightarrow> bool" where
  "py_eq a b = (canon a = canon b)"

text \<open>
  \<open>x.get(k, default)\<close>: only a dict has the method. (The message of Python's
  \<open>AttributeError\<close> also names the type of \<open>x\<close>.)
\<close>

fun py_get :: "json \<Rightarrow> string \<Rightarrow> json \<Rightarrow> exn + json" where
  "py_get (JObj kvs) k d = Inr (case map_of kvs k of None \<Rightarrow> d | Some v \<Rightarrow> v)"
| "py_get _ k d = Inl (AttributeError ''object has no attribute get'')"

text \<open>\<open>x[k]\<close> with a string key: a missing key raises, and so does anything but a dict.\<close>

fun py_item :: "json \<Rightarrow> string \<Rightarrow> exn + json" where
  "py_item (JObj kvs) k = (case map_of kvs k of None \<Rightarrow> Inl (KeyError k) | Some v \<Rightarrow> Inr v)"
| "py_item (JList xs) k = Inl (TypeError ''list indices must be integers or slices, not str'')"
| "py_item (JStr s) k = Inl (TypeError ''string indices must be integers, not str'')"
| "py_item _ k = Inl (TypeError ''object is not subscriptable'')"

fun is_list :: "json \<Rightarrow> bool" where
  "is_list (JList xs) = True"
| "is_list _ = False"

fun the_list :: "json \<Rightarrow> json list" where
  "the_list (JList xs) = xs"
| "the_list _ = []"

text \<open>
  \<open>str.lower()\<close> on code points below 256: the letters A to Z and the capital letters
  of Latin-1 (192 to 222 but the multiplication sign) move up by 32, which sets the bit of
  weight 32, clear in all of them. Other values have no such method.
\<close>

definition lower_char :: "char \<Rightarrow> char" where
  "lower_char c =
     (let n = (of_char c :: nat)
      in if (65 \<le> n \<and> n \<le> 90) \<or> (192 \<le> n \<and> n \<le> 222 \<and> n \<noteq> 215)
         then (case c of Char b0 b1 b2 b3 b4 b5 b6 b7 \<Rightarrow> Char b0 b1 b2 b3 b4 True b6 b7)
         else c)"

fun py_lower :: "json \<Rightarrow> exn + json" where
  "py_lower (JStr s) = Inr (JStr (map lower_char s))"
| "py_lower _ = Inl (AttributeError ''object has no attribute lower'')"


section \<open>The order-pool reconciler of the map screen\<close>

text \<open>
  \<open>MapScreen\<close> of \<open>screens/home_screen.py\<close>: the fields that its \<open>check_order_pool\<close>,
  \<open>show_order_dialog\<close>, \<open>close_order_dialog\<close> and \<open>fetch_driver_status\<close> read and
  write. \<open>current_pool_order\<close> and \<open>order_dialog\<close> are \<open>None\<close> or a value; the dialog is
  identified by the order it displays.
\<close>

record map_screen =
  driver_status :: string
  show_pool_order :: bool
  current_pool_order :: "json option"
  order_dialog :: "json option"
  pool_orders :: "json list"
  current_orders :: "json list"

definition init_screen :: map_screen where
  "init_screen =
     \<lparr> driver_status = ''offline'', show_pool_order = False, current_pool_order = None,
       order_dialog = None, pool_orders = [], current_orders = [] \<rparr>"

text \<open>What the screen does to its collaborators: the dialog, the toast and the sound service.\<close>

datatype ui_event =
    PlayNewOrderSound
  | DialogOpened json
  | DialogDismissed json
  | Toast string

text \<open>
  The injected sound service: absent (\<open>None\<close>), playing, or raising from
  \<open>play_new_order_sound\<close> (the screen catches that and goes on).
\<close>

datatype sound_service = NoSound | SoundPlays | SoundRaises

definition toast_vanished :: string where
  "toast_vanished = ''Zlecenie nie jest juz dostepne''"

definition toast_new_order :: string where
  "toast_new_order = ''Nowe zlecenie!''"

text \<open>
  \<open>any(order['id'] == self.current_pool_order['id'] for order in new_pool_orders)\<close>:
  the generator reads \<open>order['id']\<close>, then the candidate's id, and stops at the first
  match; either read can raise.
\<close>

fun current_order_exists :: "json \<Rightarrow> json list \<Rightarrow> exn + bool" where
  "current_order_exists cur [] = Inr False"
| "current_order_exists cur (order # rest) =
     (case py_item order ''id'' of
        Inl e \<Rightarrow> Inl e
      | Inr a \<Rightarrow>
          (case py_item cur ''id'' of
             Inl e \<Rightarrow> Inl e
           | Inr b \<Rightarrow> if py_eq a b then Inr True else current_order_exists cur rest))"

text \<open>
  \<open>not order.get('status') or order.get('status', '').lower() in ['new', 'pending']\<close>.
\<close>

definition is_acceptable :: "json \<Rightarrow> exn + bool" where
  "is_acceptable order =
     (case py_get order ''status'' JNull of
        Inl e \<Rightarrow> Inl e
      | Inr st \<Rightarrow>
          if \<not> truthy st then Inr True
          else (case py_get order ''status'' (JStr []) of
                  Inl e \<Rightarrow> Inl e
                | Inr st' \<Rightarrow>
                    (case py_lower st' of
                       Inl e \<Rightarrow> Inl e
                     | Inr l \<Rightarrow> Inr (l = JStr ''new'' \<or> l = JStr ''pending''))))"

fun acceptable_orders :: "json list \<Rightarrow> exn + json list" where
  "acceptable_orders [] = Inr []"
| "acceptable_orders (order # rest) =
     (case is_acceptable order of
        Inl e \<Rightarrow> Inl e
      | Inr keep \<Rightarrow>
          (case acceptable_orders rest of
             Inl e \<Rightarrow> Inl e
           | Inr acc \<Rightarrow> Inr (if keep then order # acc else acc)))"

definition show_order_dialog :: "json \<Rightarrow> map_screen \<Rightarrow> map_screen \<times> ui_event list" where
  "show_order_dialog order_data s =
     (s\<lparr> current_pool_order := Some order_data, show_pool_order := True,
         order_dialog := Some order_data \<rparr>,
      [DialogOpened order_data])"

definition close_order_dialog :: "map_screen \<Rightarrow> map_screen \<times> ui_event list" where
  "close_order_dialog s =
     (s\<lparr> order_dialog := None, show_pool_order := False, current_pool_order := None \<rparr>,
      (case order_dialog s of None \<Rightarrow> [] | Some d \<Rightarrow> [DialogDismissed d]))"

definition play_new_order_sound :: "sound_service \<Rightarrow> ui_event list" where
  "play_new_order_sound snd_svc = (if snd_svc = SoundPlays then [PlayNewOrderSound] else [])"

text \<open>
  The list the screen takes from a successful response: \<open>response['data']\<close> when that is a
  list, else \<open>response['orders']\<close> when that is one, else the empty list.
\<close>

definition new_pool_orders_of :: "json \<Rightarrow> exn + json list" where
  "new_pool_orders_of response =
     (case py_get response ''data'' JNull of
        Inl e \<Rightarrow> Inl e
      | Inr d \<Rightarrow>
          if is_list d then Inr (the_list d)
          else (case py_get response ''orders'' JNull of
                  Inl e \<Rightarrow> Inl e
                | Inr os \<Rightarrow> Inr (if is_list os then the_list os else [])))"

text \<open>
  The screen's \<open>check_order_pool\<close> after a response with a truthy \<open>success\<close>, in two
  parts. \<open>look_for_new_order\<close> is the end of the branch: the search for a new candidate
  when the list is not empty and none is shown, then the assignment to \<open>pool_orders\<close>.
  \<open>reconcile\<close> is the check of the shown candidate before it, with its early \<open>return\<close>
  after the dialog is closed, which leaves \<open>pool_orders\<close> unassigned.
\<close>

definition look_for_new_order ::
  "sound_service \<Rightarrow> json list \<Rightarrow> map_screen \<Rightarrow> exn + (map_screen \<times> ui_event list)" where
  "look_for_new_order snd_svc new_pool_orders s =
     (if new_pool_orders \<noteq> [] \<and> \<not> show_pool_order s then
        (case acceptable_orders new_pool_orders of
           Inl e \<Rightarrow> Inl e
         | Inr [] \<Rightarrow> Inr (s\<lparr> pool_orders := new_pool_orders \<rparr>, [])
         | Inr (first # _) \<Rightarrow>
             (let (s1, shown) = show_order_dialog first s
              in Inr (s1\<lparr> pool_orders := new_pool_orders \<rparr>,
                      play_new_order_sound snd_svc @ shown @ [Toast toast_new_order])))
      else Inr (s\<lparr> pool_orders := new_pool_orders \<rparr>, []))"

definition reconcile ::
  "sound_service \<Rightarrow> json list \<Rightarrow> map_screen \<Rightarrow> exn + (map_screen \<times> ui_event list)" where
  "reconcile snd_svc new_pool_orders s =
     (case (if show_pool_order s then current_pool_order s else None) of
        Some cur \<Rightarrow>
          if truthy cur then
            (case current_order_exists cur new_pool_orders of
               Inl e \<Rightarrow> Inl e
             | Inr True \<Rightarrow> look_for_new_order snd_svc new_pool_orders s
             | Inr False \<Rightarrow>
                 (case py_item cur ''id'' of
                    Inl e \<Rightarrow> Inl e
                  | Inr _ \<Rightarrow>
                      (let (s1, closed) = close_order_dialog s
                       in Inr (s1, closed @ [Toast toast_vanished]))))
          else look_for_new_order snd_svc new_pool_orders s
      | None \<Rightarrow> look_for_new_order snd_svc new_pool_orders s)"

text \<open>
  \<open>MapScreen.check_order_pool\<close>, here \<open>screen_check_order_pool\<close> to keep it apart
  from the API client's method of the same name. The API client is consulted only when the
  driver is not offline; \<open>api\<close> is what \<open>api_service.check_order_pool()\<close> then does, a
  raised exception or a returned value. Every exception of the body is caught by the
  method's \<open>except Exception\<close>, which prints it; all of them arise before the first
  assignment, so the screen is then as it was.
\<close>

definition screen_check_order_pool_body ::
  "sound_service \<Rightarrow> exn + json \<Rightarrow> map_screen \<Rightarrow> exn + (map_screen \<times> ui_event list)" where
  "screen_check_order_pool_body snd_svc api s =
     (if driver_status s = ''offline'' then Inr (s, [])
      else
        (case api of
           Inl e \<Rightarrow> Inl e
         | Inr response \<Rightarrow>
             (case py_get response ''success'' JNull of
                Inl e \<Rightarrow> Inl e
              | Inr ok \<Rightarrow>
                  if truthy ok then
                    (case new_pool_orders_of response of
                       Inl e \<Rightarrow> Inl e
                     | Inr new_pool_orders \<Rightarrow> reconcile snd_svc new_pool_orders s)
                  else Inr (s, []))))"

definition screen_check_order_pool ::
  "sound_service \<Rightarrow> exn + json \<Rightarrow> map_screen \<Rightarrow> map_screen \<times> ui_event list" where
  "screen_check_order_pool snd_svc api s =
     (case screen_check_order_pool_body snd_svc api s of
        Inl e \<Rightarrow> (s, [])
      | Inr r \<Rightarrow> r)"


text \<open>
  \<open>fetch_driver_status\<close>: the only assignment to \<open>driver_status\<close> in the screen. \<open>api\<close> is
  what \<open>api_service.check_driver_status()\<close> does.
\<close>

definition fetch_driver_status :: "exn + json \<Rightarrow> map_screen \<Rightarrow> map_screen" where
  "fetch_driver_status api s =
     (case api of
        Inl e \<Rightarrow> s
      | Inr response \<Rightarrow>
          (case py_get response ''success'' JNull of
             Inl e \<Rightarrow> s
           | Inr ok \<Rightarrow> if truthy ok then s\<lparr> driver_status := ''online'' \<rparr> else s))"

text \<open>
  The timeline of the screen: the clock's pool ticks, each with what the sound service and
  the API client do at that tick, and the status fetches.
\<close>

datatype tick_input = PoolTick sound_service "exn + json" | StatusTick "exn + json"

fun tick :: "tick_input \<Rightarrow> map_screen \<Rightarrow> map_screen \<times> ui_event list" where
  "tick (PoolTick snd_svc api) s = screen_check_order_pool snd_svc api s"
| "tick (StatusTick api) s = (fetch_driver_status api s, [])"

fun run_ticks :: "tick_input list \<Rightarrow> map_screen \<Rightarrow> map_screen \<times> ui_event list" where
  "run_ticks [] s = (s, [])"
| "run_ticks (t # ts) s =
     (let (s1, e1) = tick t s; (s2, e2) = run_ticks ts s1 in (s2, e1 @ e2))"

text \<open>
  Reading a trace: a candidate is presented by each opened dialog and withdrawn by each
  "no longer available" toast; \<open>showing\<close> is 1 in the state \<open>Showing\<close> and 0 in \<open>Idle\<close>.
\<close>

fun is_presented :: "ui_event \<Rightarrow> bool" where
  "is_presented (DialogOpened order) = True"
| "is_presented _ = False"

definition presented :: "ui_event list \<Rightarrow> nat" where
  "presented evs = length (filter is_presented evs)"

definition withdrawn :: "ui_event list \<Rightarrow> nat" where
  "withdrawn evs = length (filter (\<lambda>e. e = Toast toast_vanished) evs)"

definition showing :: "map_screen \<Rightarrow> nat" where
  "showing s = (if show_pool_order s then 1 else 0)"

text \<open>Concrete orders, responses and screens for the examples below.\<close>

definition order7 :: json where
  "order7 = JObj [(''id'', JNum 7), (''status'', JStr ''new'')]"

definition order8 :: json where
  "order8 = JObj [(''id'', JNum 8), (''status'', JStr ''PENDING'')]"

definition pool_response :: "json list \<Rightarrow> json" where
  "pool_response xs = JObj [(''success'', JBool True), (''data'', JList xs)]"

definition online_screen :: map_screen where
  "online_screen = init_screen\<lparr> driver_status := ''online'' \<rparr>"

definition showing7 :: map_screen where
  "showing7 =
     \<lparr> driver_status = ''online'', show_pool_order = True, current_pool_order = Some order7,
       order_dialog = Some order7, pool_orders = [order7], current_orders = [] \<rparr>"


subsection \<open>The variant of \<open>screens/home_screen_fixed.py\<close>\<close>

text \<open>
  \<open>MapScreen.safe_check_order_pool\<close> of \<open>home_screen_fixed.py\<close> holds the candidate in
  \<open>current_pool_order\<close> alone. Its pool is the literal \<open>new_pool_orders = []\<close> ("would come
  from API"); \<open>safe_check_pool_with\<close> is the body of the method for a given list, and the
  method runs it on the empty one. An exception leaves the assignments made before it.
\<close>

record safe_map_screen =
  safe_current_orders :: "json list"
  safe_current_pool_order :: "json option"
  safe_driver_status :: string

definition safe_is_acceptable :: "json \<Rightarrow> exn + bool" where
  "safe_is_acceptable order =
     (case py_get order ''status'' JNull of
        Inl e \<Rightarrow> Inl e
      | Inr st \<Rightarrow> Inr (\<not> truthy st \<or> py_eq st (JStr ''pending'')))"

fun safe_acceptable_orders :: "json list \<Rightarrow> exn + json list" where
  "safe_acceptable_orders [] = Inr []"
| "safe_acceptable_orders (order # rest) =
     (case safe_is_acceptable order of
        Inl e \<Rightarrow> Inl e
      | Inr keep \<Rightarrow>
          (case safe_acceptable_orders rest of
             Inl e \<Rightarrow> Inl e
           | Inr acc \<Rightarrow> Inr (if keep then order # acc else acc)))"

definition safe_still_exists :: "json list \<Rightarrow> safe_map_screen \<Rightarrow> exn + safe_map_screen" where
  "safe_still_exists new_pool_orders s =
     (case safe_current_pool_order s of
        None \<Rightarrow> Inr s
      | Some cur \<Rightarrow>
          if truthy cur then
            (case current_order_exists cur new_pool_orders of
               Inl e \<Rightarrow> Inl e
             | Inr True \<Rightarrow> Inr s
             | Inr False \<Rightarrow>
                 (case py_item cur ''id'' of
                    Inl e \<Rightarrow> Inl e
                  | Inr _ \<Rightarrow> Inr (s\<lparr> safe_current_pool_order := None \<rparr>)))
          else Inr s)"

text \<open>
  \<open>safe_show_order_dialog\<close>, scheduled by the method for the next frame: it opens the dialog
  and plays the sound; if the sound service raises, it toasts an error.
\<close>

definition safe_show_order_dialog :: "sound_service \<Rightarrow> json \<Rightarrow> ui_event list" where
  "safe_show_order_dialog snd_svc order =
     DialogOpened order #
       (case snd_svc of
          NoSound \<Rightarrow> []
        | SoundPlays \<Rightarrow> [PlayNewOrderSound]
        | SoundRaises \<Rightarrow> [Toast ''Blad wyswietlania zlecenia''])"

definition safe_check_pool_with ::
  "sound_service \<Rightarrow> json list \<Rightarrow> safe_map_screen \<Rightarrow> safe_map_screen \<times> ui_event list" where
  "safe_check_pool_with snd_svc new_pool_orders s =
     (if new_pool_orders \<noteq> [] then
        (case safe_still_exists new_pool_orders s of
           Inl e \<Rightarrow> (s, [])
         | Inr s1 \<Rightarrow>
             (case safe_acceptable_orders new_pool_orders of
                Inl e \<Rightarrow> (s1, [])
              | Inr [] \<Rightarrow> (s1, [])
              | Inr (first # _) \<Rightarrow>
                  if (case safe_current_pool_order s1 of None \<Rightarrow> True | Some cur \<Rightarrow> \<not> truthy cur)
                  then (s1\<lparr> safe_current_pool_order := Some first \<rparr>,
                        safe_show_order_dialog snd_svc first)
                  else (s1, [])))
      else (s, []))"

definition safe_check_order_pool ::
  "sound_service \<Rightarrow> safe_map_screen \<Rightarrow> safe_map_screen \<times> ui_event list" where
  "safe_check_order_pool snd_svc s = safe_check_pool_with snd_svc [] s"


section \<open>The API client\<close>

text \<open>
  \<open>APIService\<close> of \<open>services/api_service_fixed.py\<close>. Its collaborators are the HTTP
  library and the keyring. What they do is a parameter: \<open>net k\<close> is the outcome of the
  request sent after \<open>k\<close> earlier ones, an exception or a reply whose \<open>response.json()\<close> returns
  or raises; \<open>kr_fault\<close> says, from the operation and the stored entries, whether the keyring
  raises. \<open>b64encode\<close>, \<open>json_dumps\<close>, \<open>py_repr\<close> (Python's \<open>str()\<close> of a value that is not a
  string) and \<open>clock\<close> (\<open>time.time()\<close>) stand for the library functions of those names.
\<close>

datatype kr_op = KrGet string | KrSet string string | KrDelete string

record http_reply =
  reply_status :: nat
  reply_is_json :: bool
  reply_text :: string
  reply_json :: "exn + json"

datatype http_outcome = Raises exn | Replies http_reply

record http_request =
  req_method :: string
  req_url :: string
  req_headers :: "(string \<times> string option) list"
  req_json :: "json option"
  req_data :: "string option"

record env =
  net :: "nat \<Rightarrow> http_outcome"
  kr_fault :: "kr_op \<Rightarrow> (string \<Rightarrow> string option) \<Rightarrow> exn option"
  b64encode :: "string \<Rightarrow> string"
  json_dumps :: "json \<Rightarrow> string"
  py_repr :: "json \<Rightarrow> string"
  clock :: rat

text \<open>
  The fields of \<open>__init__\<close>, and with them the state of the collaborators: the entries of the
  keyring service \<open>taxi_driver\<close> by user name, the requests handed to the HTTP library, in
  order, and the waits passed to \<open>asyncio.sleep\<close>.
\<close>

record api_service =
  is_logged_in :: bool
  base_url :: "string option"
  auth_header :: "string option"
  phone :: "string option"
  password :: "string option"
  driver_id :: "int option"
  last_endpoint :: "string option"
  max_retries :: int
  retry_delay :: rat
  timeout :: rat
  last_error :: "exn option"
  error_count :: int
  keyring :: "string \<Rightarrow> string option"
  http_log :: "http_request list"
  sleeps :: "rat list"

definition default_base_url :: string where
  "default_base_url =
     ''https://e6db2f06-15c4-4633-bd30-7fbd9c8200b1-00-l2xqyupphiyt.riker.replit.dev''"

definition new_api_service :: "(string \<Rightarrow> string option) \<Rightarrow> api_service" where
  "new_api_service stored =
     \<lparr> is_logged_in = False, base_url = Some default_base_url, auth_header = None,
       phone = None, password = None, driver_id = None, last_endpoint = None,
       max_retries = 3, retry_delay = 1, timeout = 30, last_error = None, error_count = 0,
       keyring = stored, http_log = [], sleeps = [] \<rparr>"

subsection \<open>Strings\<close>

text \<open>Truthiness of an optional string: neither \<open>None\<close> nor empty.\<close>

fun str_truthy :: "string option \<Rightarrow> bool" where
  "str_truthy None = False"
| "str_truthy (Some s) = (s \<noteq> [])"

text \<open>\<open>a or b\<close> on optional strings.\<close>

definition str_or :: "string option \<Rightarrow> string option \<Rightarrow> string option" where
  "str_or a b = (if str_truthy a then a else b)"

text \<open>An optional string inside an f-string: \<open>None\<close> prints as the word.\<close>

fun fmt_opt :: "string option \<Rightarrow> string" where
  "fmt_opt None = ''None''"
| "fmt_opt (Some s) = s"

definition startswith :: "string \<Rightarrow> string \<Rightarrow> bool" where
  "startswith s p = (take (length p) s = p)"

definition endswith_slash :: "string \<Rightarrow> bool" where
  "endswith_slash s = (s \<noteq> [] \<and> last s = CHR ''/'')"

text \<open>
  \<open>str.strip()\<close>: the characters below 256 for which \<open>str.isspace()\<close> holds are 9 to 13,
  28 to 32, 133 and 160.
\<close>

definition is_space :: "char \<Rightarrow> bool" where
  "is_space c =
     (let n = (of_char c :: nat)
      in (9 \<le> n \<and> n \<le> 13) \<or> (28 \<le> n \<and> n \<le> 32) \<or> n = 133 \<or> n = 160)"

definition py_strip :: "string \<Rightarrow> string" where
  "py_strip s = rev (dropWhile is_space (rev (dropWhile is_space s)))"

text \<open>Decimal digits of a number, for the f-strings that print one.\<close>

function str_nat :: "nat \<Rightarrow> string" where
  "str_nat n =
     (if n < 10 then [''0123456789'' ! n]
      else str_nat (n div 10) @ [''0123456789'' ! (n mod 10)])"
  by pat_completeness auto
termination
  by (relation "measure id") auto

definition str_int :: "int \<Rightarrow> string" where
  "str_int i = (if i < 0 then CHR ''-'' # str_nat (nat (- i)) else str_nat (nat i))"

text \<open>A value inside an f-string: a string prints as itself.\<close>

definition py_str :: "env \<Rightarrow> json \<Rightarrow> string" where
  "py_str env v = (case v of JStr s \<Rightarrow> s | _ \<Rightarrow> py_repr env v)"

text \<open>\<open>d.get(k)\<close> on the entries of a dict.\<close>

definition dget :: "(string \<times> json) list \<Rightarrow> string \<Rightarrow> json" where
  "dget kvs k = (case map_of kvs k of None \<Rightarrow> JNull | Some v \<Rightarrow> v)"

text \<open>\<open>d[k] = v\<close> on the entries of a dict.\<close>

definition dset :: "'k \<Rightarrow> 'v \<Rightarrow> ('k \<times> 'v) list \<Rightarrow> ('k \<times> 'v) list" where
  "dset k v kvs = (if k \<in> fst ` set kvs then map (\<lambda>(k', v'). if k' = k then (k', v) else (k', v')) kvs
                   else kvs @ [(k, v)])"

subsection \<open>The keyring\<close>

text \<open>
  \<open>keyring.get_password\<close>, \<open>set_password\<close> and \<open>delete_password\<close> for the service
  \<open>taxi_driver\<close>. Whether a call raises is the backend's affair, \<open>kr_fault\<close>: a backend that
  raises when asked to delete an entry it does not hold is one whose \<open>kr_fault\<close> says so for
  \<open>KrDelete\<close> on such a store.
\<close>

definition keyring_get :: "env \<Rightarrow> string \<Rightarrow> api_service \<Rightarrow> exn + string option" where
  "keyring_get env k s =
     (case kr_fault env (KrGet k) (keyring s) of
        Some e \<Rightarrow> Inl e
      | None \<Rightarrow> Inr (keyring s k))"

definition keyring_set :: "env \<Rightarrow> string \<Rightarrow> string \<Rightarrow> api_service \<Rightarrow> exn + api_service" where
  "keyring_set env k v s =
     (case kr_fault env (KrSet k v) (keyring s) of
        Some e \<Rightarrow> Inl e
      | None \<Rightarrow> Inr (s\<lparr> keyring := (keyring s)(k \<mapsto> v) \<rparr>))"

definition keyring_delete :: "env \<Rightarrow> string \<Rightarrow> api_service \<Rightarrow> exn + api_service" where
  "keyring_delete env k s =
     (case kr_fault env (KrDelete k) (keyring s) of
        Some e \<Rightarrow> Inl e
      | None \<Rightarrow> Inr (s\<lparr> keyring := (keyring s)(k := None) \<rparr>))"


subsection \<open>The retrying transport\<close>

text \<open>\<open>_handle_error\<close>: the dict that \<open>get\<close>, \<open>post\<close>, \<open>put\<close> and \<open>delete\<close> return for an exception.\<close>

definition handle_error :: "env \<Rightarrow> exn \<Rightarrow> string \<Rightarrow> api_service \<Rightarrow> json \<times> api_service" where
  "handle_error env error endpoint s =
     (JObj [(''success'', JBool False), (''error'', JStr (str_exn error)),
            (''endpoint'', JStr endpoint), (''timestamp'', JNum (clock env))],
      s\<lparr> last_error := Some error, error_count := error_count s + 1 \<rparr>)"

text \<open>The exceptions of the first \<open>except\<close> clause of \<open>_make_request\<close>.\<close>

fun is_network_error :: "exn \<Rightarrow> bool" where
  "is_network_error (ClientError m) = True"
| "is_network_error (TimeoutError m) = True"
| "is_network_error _ = False"

definition request_headers ::
  "api_service \<Rightarrow> (string \<times> string option) list option \<Rightarrow> (string \<times> string option) list" where
  "request_headers s headers =
     (let h0 = [(''Content-Type'', Some ''application/json''), (''Accept'', Some ''application/json'')];
          h1 = (if str_truthy (auth_header s) then dset ''Authorization'' (auth_header s) h0 else h0)
      in case headers of
           None \<Rightarrow> h1
         | Some extra \<Rightarrow> foldl (\<lambda>h (k, v). dset k v h) h1 extra)"

text \<open>
  The body of the \<open>try\<close> of one attempt, given what the HTTP library did: the decoded body,
  or the exception that leaves the \<open>try\<close>.
\<close>

definition attempt_result :: "env \<Rightarrow> string \<Rightarrow> http_outcome \<Rightarrow> exn + json" where
  "attempt_result env endpoint outcome =
     (case outcome of
        Raises e \<Rightarrow> Inl e
      | Replies r \<Rightarrow>
          (case reply_json r of
             Inl (JSONDecodeError m) \<Rightarrow>
               Inl (APIConnectionError (''Invalid JSON response from '' @ endpoint))
           | Inl e \<Rightarrow> Inl e
           | Inr response_data \<Rightarrow>
               if reply_status r \<ge> 400 then
                 (case py_get response_data ''error'' (JStr (''HTTP '' @ str_nat (reply_status r))) of
                    Inl e \<Rightarrow> Inl e
                  | Inr error_msg \<Rightarrow>
                      if reply_status r = 401
                      then Inl (APIAuthenticationError
                                  (''Authentication failed: '' @ py_str env error_msg))
                      else Inl (APIConnectionError
                                  (''API error '' @ str_nat (reply_status r) @ '': ''
                                   @ py_str env error_msg)))
               else Inr response_data))"

text \<open>
  \<open>for attempt in range(retries + 1)\<close>, over the list of the attempt numbers still to come.
  The first \<open>except\<close> clause sleeps and goes on, or gives up at the last attempt; the second
  one wraps every other exception, those raised inside the \<open>try\<close> included.
\<close>

fun request_attempts ::
  "env \<Rightarrow> http_request \<Rightarrow> string \<Rightarrow> int \<Rightarrow> nat list \<Rightarrow> api_service \<Rightarrow> (exn + json) \<times> api_service"
where
  "request_attempts env req endpoint retries [] s =
     (Inl (APIConnectionError ''Request failed for unknown reason''), s)"
| "request_attempts env req endpoint retries (attempt # rest) s =
     (let s1 = s\<lparr> http_log := http_log s @ [req] \<rparr>
      in case attempt_result env endpoint (net env (length (http_log s))) of
           Inr response_data \<Rightarrow> (Inr response_data, s1)
         | Inl e \<Rightarrow>
             if is_network_error e then
               (if int attempt < retries then
                  request_attempts env req endpoint retries rest
                    (s1\<lparr> sleeps := sleeps s1 @ [retry_delay s1 * 2 ^ attempt] \<rparr>)
                else (Inl (APIConnectionError
                             (''Failed after '' @ str_int (retries + 1) @ '' attempts: ''
                              @ str_exn e)), s1))
             else (Inl (APIConnectionError (''Unexpected error: '' @ str_exn e)), s1))"

definition make_request ::
  "env \<Rightarrow> string \<Rightarrow> string \<Rightarrow> json option \<Rightarrow> (string \<times> string option) list option \<Rightarrow>
   int option \<Rightarrow> api_service \<Rightarrow> (exn + json) \<times> api_service" where
  "make_request env method endpoint data headers retries_arg s =
     (let retries = (case retries_arg of None \<Rightarrow> max_retries s | Some r \<Rightarrow> r);
          s1 = s\<lparr> last_endpoint := Some endpoint \<rparr>;
          req = \<lparr> req_method = method, req_url = fmt_opt (base_url s1) @ endpoint,
                  req_headers = request_headers s1 headers, req_json = data, req_data = None \<rparr>
      in request_attempts env req endpoint retries [0 ..< nat (retries + 1)] s1)"

definition get ::
  "env \<Rightarrow> string \<Rightarrow> (string \<times> string option) list option \<Rightarrow> api_service \<Rightarrow> json \<times> api_service" where
  "get env endpoint params s =
     (case make_request env ''GET'' endpoint None params None s of
        (Inr r, s1) \<Rightarrow> (r, s1)
      | (Inl e, s1) \<Rightarrow> handle_error env e endpoint s1)"

definition post :: "env \<Rightarrow> string \<Rightarrow> json option \<Rightarrow> api_service \<Rightarrow> json \<times> api_service" where
  "post env endpoint data s =
     (case make_request env ''POST'' endpoint data None None s of
        (Inr r, s1) \<Rightarrow> (r, s1)
      | (Inl e, s1) \<Rightarrow> handle_error env e endpoint s1)"

definition put :: "env \<Rightarrow> string \<Rightarrow> json option \<Rightarrow> api_service \<Rightarrow> json \<times> api_service" where
  "put env endpoint data s =
     (case make_request env ''PUT'' endpoint data None None s of
        (Inr r, s1) \<Rightarrow> (r, s1)
      | (Inl e, s1) \<Rightarrow> handle_error env e endpoint s1)"

definition delete :: "env \<Rightarrow> string \<Rightarrow> api_service \<Rightarrow> json \<times> api_service" where
  "delete env endpoint s =
     (case make_request env ''DELETE'' endpoint None None None s of
        (Inr r, s1) \<Rightarrow> (r, s1)
      | (Inl e, s1) \<Rightarrow> handle_error env e endpoint s1)"

definition check_api_status :: "env \<Rightarrow> api_service \<Rightarrow> bool \<times> api_service" where
  "check_api_status env s =
     (case make_request env ''GET'' ''/api/health'' None None (Some 1) s of
        (Inr r, s1) \<Rightarrow> (True, s1)
      | (Inl e, s1) \<Rightarrow> (False, s1))"

definition check_connection :: "env \<Rightarrow> api_service \<Rightarrow> json \<times> api_service" where
  "check_connection env s =
     (let (ok, s1) = check_api_status env s
      in (if ok then JObj [(''success'', JBool True), (''status'', JStr ''connected'')]
          else JObj [(''success'', JBool False), (''status'', JStr ''disconnected'')], s1))"

subsection \<open>The session\<close>

definition initialize :: "env \<Rightarrow> string \<Rightarrow> string \<Rightarrow> string option \<Rightarrow> api_service \<Rightarrow> api_service" where
  "initialize env phone_arg password_arg base_url_arg s =
     s\<lparr> phone := Some phone_arg, password := Some password_arg,
        base_url := str_or base_url_arg (Some default_base_url),
        auth_header := Some (''Basic '' @ b64encode env (phone_arg @ '':'' @ password_arg)) \<rparr>"

definition get_base_url :: "api_service \<Rightarrow> string" where
  "get_base_url s =
     (case base_url s of
        None \<Rightarrow> default_base_url
      | Some u \<Rightarrow>
          if u = [] then default_base_url
          else if endswith_slash u then butlast u
          else u)"

definition reset :: "api_service \<Rightarrow> api_service" where
  "reset s =
     s\<lparr> is_logged_in := False, base_url := None, auth_header := None, phone := None,
        password := None, driver_id := None, last_endpoint := None \<rparr>"

text \<open>
  \<open>change_base_url\<close>: its \<open>except\<close> clause logs and raises the exception again, so the
  \<open>ValueError\<close> for a blank address and an exception of the keyring both leave the method.
\<close>

definition format_url :: "string \<Rightarrow> string" where
  "format_url new_base_url =
     (let stripped = py_strip new_base_url;
          chopped = (if endswith_slash stripped then butlast stripped else stripped)
      in if \<not> startswith chopped ''http://'' \<and> \<not> startswith chopped ''https://''
         then ''https://'' @ chopped
         else chopped)"

definition change_base_url :: "env \<Rightarrow> string \<Rightarrow> api_service \<Rightarrow> (exn + bool) \<times> api_service" where
  "change_base_url env new_base_url s =
     (if new_base_url = [] \<or> py_strip new_base_url = []
      then (Inl (ValueError ''Nowy adres URL nie moze byc pusty''), s)
      else
        (case keyring_set env ''api_url'' (format_url new_base_url) s of
           Inl e \<Rightarrow> (Inl e, s)
         | Inr s1 \<Rightarrow> (Inr True, s1\<lparr> base_url := Some (format_url new_base_url) \<rparr>)))"

definition load_saved_credentials ::
  "env \<Rightarrow> api_service \<Rightarrow> (string \<times> string) option \<times> api_service" where
  "load_saved_credentials env s =
     (case keyring_get env ''phone'' s of
        Inl e \<Rightarrow> (None, s)
      | Inr saved_phone \<Rightarrow>
          (case keyring_get env ''password'' s of
             Inl e \<Rightarrow> (None, s)
           | Inr saved_password \<Rightarrow>
               (case (saved_phone, saved_password) of
                  (Some p, Some w) \<Rightarrow>
                    if p \<noteq> [] \<and> w \<noteq> [] then (Some (p, w), initialize env p w None s)
                    else (None, s)
                | _ \<Rightarrow> (None, s))))"

definition save_credentials ::
  "env \<Rightarrow> string \<Rightarrow> string \<Rightarrow> string option \<Rightarrow> api_service \<Rightarrow> api_service" where
  "save_credentials env phone_arg password_arg base_url_arg s =
     (case keyring_set env ''phone'' phone_arg s of
        Inl e \<Rightarrow> s
      | Inr s1 \<Rightarrow>
          (case keyring_set env ''password'' password_arg s1 of
             Inl e \<Rightarrow> s1
           | Inr s2 \<Rightarrow>
               (case str_or base_url_arg (base_url s2) of
                  None \<Rightarrow> s2
                | Some url_to_save \<Rightarrow>
                    if url_to_save = [] then s2
                    else (case keyring_set env ''api_url'' url_to_save s2 of
                            Inl e \<Rightarrow> s2
                          | Inr s3 \<Rightarrow> s3))))"

definition load_saved_api_url :: "env \<Rightarrow> api_service \<Rightarrow> string option \<times> api_service" where
  "load_saved_api_url env s =
     (case keyring_get env ''api_url'' s of
        Inl e \<Rightarrow> (None, s)
      | Inr saved_url \<Rightarrow>
          if str_truthy saved_url then (saved_url, s\<lparr> base_url := saved_url \<rparr>)
          else (None, s))"


subsection \<open>The single-request transport and the authenticated fetch\<close>

text \<open>The \<open>options\<close> dict of \<open>_fetch_with_logging\<close> and \<open>_auth_fetch\<close>, by its four keys.\<close>

record fetch_options =
  opt_method :: "string option"
  opt_headers :: "(string \<times> string option) list"
  opt_json :: "json option"
  opt_data :: "string option"

definition no_options :: fetch_options where
  "no_options = \<lparr> opt_method = None, opt_headers = [], opt_json = None, opt_data = None \<rparr>"

definition post_options :: "json option \<Rightarrow> fetch_options" where
  "post_options payload =
     \<lparr> opt_method = Some ''POST'', opt_headers = [], opt_json = payload, opt_data = None \<rparr>"

text \<open>
  \<open>_fetch_with_logging\<close> reads \<open>method = options.get('method', 'GET')\<close> and calls
  \<open>session.request(method, url, **options)\<close>. When the caller put a \<open>method\<close> in
  \<open>options\<close>, as \<open>login\<close> and every POST method do, the call passes the method by position
  and once more by keyword: Python raises the \<open>TypeError\<close> "request() got multiple values
  for argument 'method'" at the call, before the library sees a request (the message is
  written here without the quotes around the name). Otherwise one GET request is handed to
  the library, and the method returns the \<open>data\<close> entry of its result dict, the only one its
  callers read: the decoded body when the content type says JSON, else a dict made of
  \<open>response.ok\<close> (a status below 400) and the text. Every exception is logged and raised
  again.
\<close>

definition duplicate_method :: exn where
  "duplicate_method = TypeError ''request() got multiple values for argument method''"

definition fetch_data :: "http_outcome \<Rightarrow> exn + json" where
  "fetch_data outcome =
     (case outcome of
        Raises e \<Rightarrow> Inl e
      | Replies r \<Rightarrow>
          if reply_is_json r then reply_json r
          else Inr (JObj [(''success'', JBool (reply_status r < 400)),
                          (''message'', JStr (reply_text r))]))"

definition fetch_with_logging ::
  "env \<Rightarrow> string \<Rightarrow> fetch_options \<Rightarrow> api_service \<Rightarrow> (exn + json) \<times> api_service" where
  "fetch_with_logging env url options s =
     (case opt_method options of
        Some m \<Rightarrow> (Inl duplicate_method, s)
      | None \<Rightarrow>
          (let req = \<lparr> req_method = ''GET'', req_url = url, req_headers = opt_headers options,
                       req_json = opt_json options, req_data = opt_data options \<rparr>
           in (fetch_data (net env (length (http_log s))),
               s\<lparr> http_log := http_log s @ [req] \<rparr>)))"

definition auth_fetch ::
  "env \<Rightarrow> string \<Rightarrow> fetch_options \<Rightarrow> api_service \<Rightarrow> json \<times> api_service" where
  "auth_fetch env endpoint options s =
     (if \<not> is_logged_in s
      then (JObj [(''success'', JBool False), (''message'', JStr ''Nie zalogowano'')], s)
      else
        (let s1 = (if \<not> str_truthy (base_url s) then s\<lparr> base_url := Some default_base_url \<rparr>
                   else s);
             url = fmt_opt (base_url s1) @ endpoint;
             headers = dset ''Content-Type'' (Some ''application/json'')
                         (dset ''Authorization'' (auth_header s1) (opt_headers options));
             o1 = options\<lparr> opt_headers := headers \<rparr>;
             o2 = (case opt_json o1 of
                     None \<Rightarrow> o1
                   | Some j \<Rightarrow> o1\<lparr> opt_data := Some (json_dumps env j), opt_json := None \<rparr>)
         in case fetch_with_logging env url o2 s1 of
              (Inl e, s2) \<Rightarrow>
                (JObj [(''success'', JBool False), (''message'', JStr (str_exn e))], s2)
            | (Inr data, s2) \<Rightarrow> (data, s2)))"

subsection \<open>Login and logout\<close>

definition login ::
  "env \<Rightarrow> string \<Rightarrow> string \<Rightarrow> string option \<Rightarrow> api_service \<Rightarrow> json \<times> api_service" where
  "login env phone_arg password_arg base_url_arg s =
     (let login_base_url =
            (case str_or base_url_arg (base_url s) of
               None \<Rightarrow> default_base_url
             | Some u \<Rightarrow> if u = [] then default_base_url else u);
          s1 = initialize env phone_arg password_arg (Some login_base_url) s;
          headers = [(''Authorization'', auth_header s1),
                     (''Content-Type'', Some ''application/json'')];
          connection_error =
            (\<lambda>e. JObj [(''success'', JBool False),
                        (''message'', JStr (''Blad polaczenia: '' @ str_exn e))])
      in case fetch_with_logging env (login_base_url @ ''/api/driver2/status/check'')
                \<lparr> opt_method = Some ''GET'', opt_headers = headers, opt_json = None,
                  opt_data = None \<rparr> s1 of
           (Inl e, s2) \<Rightarrow> (connection_error e, s2)
         | (Inr response_data, s2) \<Rightarrow>
             (case py_get response_data ''success'' JNull of
                Inl e \<Rightarrow> (connection_error e, s2)
              | Inr ok \<Rightarrow>
                  if truthy ok then
                    (let s3 = s2\<lparr> is_logged_in := True, driver_id := Some 15 \<rparr>;
                         s4 = save_credentials env phone_arg password_arg (Some login_base_url) s3
                     in (JObj [(''success'', JBool True),
                               (''message'', JStr ''Logowanie pomyslne''),
                               (''data'', JObj [(''driver_id'', JNum 15),
                                               (''phone'', JStr phone_arg),
                                               (''base_url'', JStr login_base_url)])], s4))
                  else
                    (case py_get response_data ''message'' (JStr ''Blad logowania'') of
                       Inl e \<Rightarrow> (connection_error e, s2)
                     | Inr m \<Rightarrow> (JObj [(''success'', JBool False), (''message'', m)], s2))))"

definition auto_login :: "env \<Rightarrow> api_service \<Rightarrow> json \<times> api_service" where
  "auto_login env s =
     (case load_saved_credentials env s of
        (Some (p, w), s1) \<Rightarrow> login env p w None s1
      | (None, s1) \<Rightarrow>
          (JObj [(''success'', JBool False),
                 (''message'', JStr ''Brak zapisanych danych logowania'')], s1))"

text \<open>
  \<open>logout\<close>: the two \<open>keyring.delete_password\<close> calls share one \<open>try\<close> whose \<open>except\<close> passes,
  so a failure of the first skips the second. There is no third call.
\<close>

definition logout :: "env \<Rightarrow> api_service \<Rightarrow> json \<times> api_service" where
  "logout env s =
     (let s1 = (if is_logged_in s
                then snd (auth_fetch env ''/api/driver2/logout'' (post_options None) s)
                else s);
          s2 = (case keyring_delete env ''phone'' s1 of
                  Inl e \<Rightarrow> s1
                | Inr sa \<Rightarrow>
                    (case keyring_delete env ''password'' sa of
                       Inl e \<Rightarrow> sa
                     | Inr sb \<Rightarrow> sb))
      in (JObj [(''success'', JBool True), (''message'', JStr ''Wylogowano pomyslnie'')],
          reset s2))"

subsection \<open>The endpoint methods\<close>

text \<open>
  Each method reads the value \<open>_auth_fetch\<close> returned with \<open>response.get\<close>. A value that is
  not a dict has no such method: the \<open>AttributeError\<close> reaches the method's \<open>except\<close> clause,
  which returns the failure dict with \<open>str(error)\<close>.
\<close>

definition no_get :: exn where
  "no_get = AttributeError ''object has no attribute get''"

definition failure :: "exn \<Rightarrow> json" where
  "failure error = JObj [(''success'', JBool False), (''message'', JStr (str_exn error))]"

definition opt_str :: "string option \<Rightarrow> json" where
  "opt_str v = (case v of None \<Rightarrow> JNull | Some x \<Rightarrow> JStr x)"

definition opt_int :: "int option \<Rightarrow> json" where
  "opt_int v = (case v of None \<Rightarrow> JNull | Some n \<Rightarrow> JNum (of_int n))"

definition get_driver_profile :: "env \<Rightarrow> api_service \<Rightarrow> json \<times> api_service" where
  "get_driver_profile env s =
     (let (response, s1) = auth_fetch env ''/api/driver2/profile'' no_options s
      in (case response of
            JObj kvs \<Rightarrow>
              if truthy (dget kvs ''success'') \<and> truthy (dget kvs ''data'')
              then JObj [(''success'', JBool True), (''data'', dget kvs ''data'')]
              else if py_eq (dget kvs ''status'') (JStr ''success'') \<and> truthy (dget kvs ''data'')
              then JObj [(''success'', JBool True), (''data'', dget kvs ''data'')]
              else if truthy (dget kvs ''driver'')
              then JObj [(''success'', JBool True), (''data'', dget kvs ''driver'')]
              else JObj [(''success'', JBool True),
                         (''data'', JObj [(''id'', opt_int (driver_id s1)),
                                         (''phone'', opt_str (phone s1)),
                                         (''name'', JStr (''Kierowca '' @ fmt_opt (phone s1))),
                                         (''status'', JStr ''online''),
                                         (''email'', JStr []),
                                         (''vehicle_model'', JStr ''Nieznany''),
                                         (''vehicle_plate'', JStr ''Nieznany''),
                                         (''vehicle_type'', JStr ''Standardowy''),
                                         (''license_number'', JStr ''Nieznany''),
                                         (''license_expiry'', JStr ''Nieznany''),
                                         (''total_orders'', JNum 0),
                                         (''average_rating'', JNum 0),
                                         (''experience_years'', JNum 0)])]
          | _ \<Rightarrow> failure no_get, s1))"

definition get_profile :: "env \<Rightarrow> api_service \<Rightarrow> json \<times> api_service" where
  "get_profile env s = get_driver_profile env s"

text \<open>
  The API client's \<open>check_order_pool\<close>. Its third branch tests \<open>response.get('orders')\<close> for
  truth, not for being a list.
\<close>

definition check_order_pool :: "env \<Rightarrow> api_service \<Rightarrow> json \<times> api_service" where
  "check_order_pool env s =
     (let (response, s1) = auth_fetch env ''/api/driver2/15/pool'' no_options s
      in (case response of
            JObj kvs \<Rightarrow>
              if truthy (dget kvs ''success'') \<and> is_list (dget kvs ''data'')
              then JObj [(''success'', JBool True), (''data'', dget kvs ''data'')]
              else if py_eq (dget kvs ''status'') (JStr ''success'') \<and> is_list (dget kvs ''orders'')
              then JObj [(''success'', JBool True), (''data'', dget kvs ''orders'')]
              else if truthy (dget kvs ''success'') \<and> truthy (dget kvs ''orders'')
              then JObj [(''success'', JBool True), (''data'', dget kvs ''orders'')]
              else JObj [(''success'', JBool True), (''data'', JList [])]
          | _ \<Rightarrow> JObj [(''success'', JBool False), (''message'', JStr (str_exn no_get)),
                       (''data'', JList [])], s1))"

definition get_current_orders :: "env \<Rightarrow> api_service \<Rightarrow> json \<times> api_service" where
  "get_current_orders env s =
     (let (response, s1) = auth_fetch env ''/api/driver2/orders/current'' no_options s
      in (case response of
            JObj kvs \<Rightarrow>
              if truthy (dget kvs ''success'') \<and> is_list (dget kvs ''data'')
              then JObj [(''success'', JBool True), (''data'', dget kvs ''data'')]
              else if py_eq (dget kvs ''status'') (JStr ''success'') \<and> is_list (dget kvs ''orders'')
              then JObj [(''success'', JBool True), (''data'', dget kvs ''orders'')]
              else JObj [(''success'', JBool True), (''data'', JList [])]
          | _ \<Rightarrow> JObj [(''success'', JBool False), (''message'', JStr (str_exn no_get)),
                       (''data'', JList [])], s1))"


definition accept_order :: "env \<Rightarrow> int \<Rightarrow> api_service \<Rightarrow> json \<times> api_service" where
  "accept_order env order_id s =
     (let (response, s1) = auth_fetch env (''/api/driver2/orders/'' @ str_int order_id @ ''/accept'') (post_options None) s
      in (case response of
            JObj kvs \<Rightarrow>
              if truthy (dget kvs ''success'')
              then JObj [(''success'', JBool True), (''order_id'', JNum (of_int order_id))]
              else JObj [(''success'', JBool False),
                         (''message'', (case map_of kvs ''message'' of
                                          None \<Rightarrow> JStr ''Blad akceptacji''
                                        | Some m \<Rightarrow> m))]
          | _ \<Rightarrow> failure no_get, s1))"

definition start_order :: "env \<Rightarrow> int \<Rightarrow> api_service \<Rightarrow> json \<times> api_service" where
  "start_order env order_id s =
     (let (response, s1) = auth_fetch env (''/api/driver2/orders/'' @ str_int order_id @ ''/start'') (post_options None) s
      in (case response of
            JObj kvs \<Rightarrow>
              if truthy (dget kvs ''success'')
              then JObj [(''success'', JBool True)]
              else JObj [(''success'', JBool False),
                         (''message'', (case map_of kvs ''message'' of
                                          None \<Rightarrow> JStr ''Blad rozpoczecia''
                                        | Some m \<Rightarrow> m))]
          | _ \<Rightarrow> failure no_get, s1))"

definition complete_order :: "env \<Rightarrow> int \<Rightarrow> api_service \<Rightarrow> json \<times> api_service" where
  "complete_order env order_id s =
     (let (response, s1) = auth_fetch env (''/api/driver2/orders/'' @ str_int order_id @ ''/complete'') (post_options None) s
      in (case response of
            JObj kvs \<Rightarrow>
              if truthy (dget kvs ''success'')
              then JObj [(''success'', JBool True)]
              else JObj [(''success'', JBool False),
                         (''message'', (case map_of kvs ''message'' of
                                          None \<Rightarrow> JStr ''Blad zakonczenia''
                                        | Some m \<Rightarrow> m))]
          | _ \<Rightarrow> failure no_get, s1))"

definition cancel_order :: "env \<Rightarrow> int \<Rightarrow> string \<Rightarrow> api_service \<Rightarrow> json \<times> api_service" where
  "cancel_order env order_id reason s =
     (let (response, s1) = auth_fetch env (''/api/driver2/orders/'' @ str_int order_id @ ''/cancel'') (post_options (Some (JObj [(''reason'', JStr reason)]))) s
      in (case response of
            JObj kvs \<Rightarrow>
              if truthy (dget kvs ''success'')
              then JObj [(''success'', JBool True), (''reason'', JStr reason)]
              else JObj [(''success'', JBool False),
                         (''message'', (case map_of kvs ''message'' of
                                          None \<Rightarrow> JStr ''Blad anulowania''
                                        | Some m \<Rightarrow> m))]
          | _ \<Rightarrow> failure no_get, s1))"

definition get_order_details :: "env \<Rightarrow> int \<Rightarrow> api_service \<Rightarrow> json \<times> api_service" where
  "get_order_details env order_id s =
     (let (response, s1) =
            auth_fetch env (''/api/driver2/orders/'' @ str_int order_id) no_options s
      in (case response of
            JObj kvs \<Rightarrow>
              if truthy (dget kvs ''success'')
              then JObj [(''success'', JBool True), (''data'', dget kvs ''data'')]
              else JObj [(''success'', JBool False),
                         (''message'', JStr ''Zlecenie nie znalezione'')]
          | _ \<Rightarrow> failure no_get, s1))"

definition get_order_storage_details :: "env \<Rightarrow> int \<Rightarrow> api_service \<Rightarrow> json \<times> api_service" where
  "get_order_storage_details env order_id s =
     (let (response, s1) =
            auth_fetch env (''/api/driver2/order_storage/'' @ str_int order_id) no_options s
      in (case response of
            JObj kvs \<Rightarrow>
              if truthy (dget kvs ''success'')
              then JObj [(''success'', JBool True), (''data'', dget kvs ''data'')]
              else JObj [(''success'', JBool True),
                         (''data'', JObj [(''id'', JNum (of_int order_id)),
                                         (''pickup_address'', JStr ''ul. Magazynowa 1''),
                                         (''destination_address'', JStr ''ul. Docelowa 2''),
                                         (''price'', JStr ''30.00''),
                                         (''distance'', JNum (15 / 2)),
                                         (''estimated_time'', JNum 20),
                                         (''created_at'', JStr ''2024-05-20T12:00:00Z''),
                                         (''order_type'', JStr ''VIP''),
                                         (''pickup_latitude'', JNum (511 / 10)),
                                         (''pickup_longitude'', JNum (111 / 5)),
                                         (''destination_latitude'', JNum (256 / 5)),
                                         (''destination_longitude'', JNum (223 / 10)),
                                         (''notes'', JStr ''Uwagi do zlecenia''),
                                         (''payment_method'', JStr ''card''),
                                         (''customer_name'', JStr ''Anna Nowak''),
                                         (''customer_phone'', JStr ''987654321'')])]
          | _ \<Rightarrow> failure no_get, s1))"

definition update_driver_status :: "env \<Rightarrow> string \<Rightarrow> api_service \<Rightarrow> json \<times> api_service" where
  "update_driver_status env status s =
     (let (response, s1) = auth_fetch env ''/api/driver2/status'' (post_options (Some (JObj [(''status'', JStr status)]))) s
      in (case response of
            JObj kvs \<Rightarrow>
              if truthy (dget kvs ''success'')
              then JObj [(''success'', JBool True)]
              else JObj [(''success'', JBool False),
                         (''message'', (case map_of kvs ''message'' of
                                          None \<Rightarrow> JStr ''Blad aktualizacji statusu''
                                        | Some m \<Rightarrow> m))]
          | _ \<Rightarrow> failure no_get, s1))"

definition update_location :: "env \<Rightarrow> rat \<Rightarrow> rat \<Rightarrow> api_service \<Rightarrow> json \<times> api_service" where
  "update_location env latitude longitude s =
     (let (response, s1) = auth_fetch env ''/api/driver2/location'' (post_options (Some (JObj [(''latitude'', JNum latitude), (''longitude'', JNum longitude)]))) s
      in (case response of
            JObj kvs \<Rightarrow>
              if truthy (dget kvs ''success'')
              then JObj [(''success'', JBool True)]
              else JObj [(''success'', JBool False),
                         (''message'', (case map_of kvs ''message'' of
                                          None \<Rightarrow> JStr ''Blad aktualizacji lokalizacji''
                                        | Some m \<Rightarrow> m))]
          | _ \<Rightarrow> failure no_get, s1))"



section \<open>Vocabulary of the properties\<close>

text \<open>The results that recur in the statements below.\<close>

definition not_logged_in :: json where
  "not_logged_in = JObj [(''success'', JBool False), (''message'', JStr ''Nie zalogowano'')]"

definition pool_of :: "json list \<Rightarrow> json" where
  "pool_of xs = JObj [(''success'', JBool True), (''data'', JList xs)]"

definition fallback_profile :: "api_service \<Rightarrow> json" where
  "fallback_profile s =
     JObj [(''success'', JBool True),
           (''data'', JObj [(''id'', opt_int (driver_id s)),
                           (''phone'', opt_str (phone s)),
                           (''name'', JStr (''Kierowca '' @ fmt_opt (phone s))),
                           (''status'', JStr ''online''),
                           (''email'', JStr []),
                           (''vehicle_model'', JStr ''Nieznany''),
                           (''vehicle_plate'', JStr ''Nieznany''),
                           (''vehicle_type'', JStr ''Standardowy''),
                           (''license_number'', JStr ''Nieznany''),
                           (''license_expiry'', JStr ''Nieznany''),
                           (''total_orders'', JNum 0),
                           (''average_rating'', JNum 0),
                           (''experience_years'', JNum 0)])]"

text \<open>
  The retry count \<open>_make_request\<close> works with, and the waits of the first \<open>n\<close> retries:
  \<open>retry_delay * 2 ** attempt\<close> for the attempts 0 to \<open>n - 1\<close>.
\<close>

definition effective_retries :: "int option \<Rightarrow> api_service \<Rightarrow> int" where
  "effective_retries retries_arg s =
     (case retries_arg of None \<Rightarrow> max_retries s | Some r \<Rightarrow> r)"

definition backoff :: "api_service \<Rightarrow> nat \<Rightarrow> rat list" where
  "backoff s n = map (\<lambda>attempt. retry_delay s * 2 ^ attempt) [0 ..< n]"

text \<open>
  The stripped address less one trailing slash, which is what \<open>change_base_url\<close> tests for
  a scheme; and the address \<open>login\<close> settles on.
\<close>

definition chopped :: "string \<Rightarrow> string" where
  "chopped u = (if endswith_slash (py_strip u) then butlast (py_strip u) else py_strip u)"

definition has_scheme :: "string \<Rightarrow> bool" where
  "has_scheme u = (startswith u ''http://'' \<or> startswith u ''https://'')"

definition login_url_of :: "string option \<Rightarrow> api_service \<Rightarrow> string" where
  "login_url_of u s =
     (case str_or u (base_url s) of
        None \<Rightarrow> default_base_url
      | Some x \<Rightarrow> if x = [] then default_base_url else x)"

text \<open>
  The normalized shape of a result: a dict whose \<open>success\<close> is a boolean and which, when
  that is false, has a \<open>message\<close>: a string, or else the very \<open>message\<close> entry of the body
  the server sent to the next request. \<open>error_shaped\<close> is the shape of \<open>_handle_error\<close>:
  the text under \<open>error\<close>, and no \<open>message\<close>.
\<close>

definition server_message :: "env \<Rightarrow> api_service \<Rightarrow> json option" where
  "server_message env s =
     (case fetch_data (net env (length (http_log s))) of
        Inr (JObj kvs) \<Rightarrow> map_of kvs ''message''
      | _ \<Rightarrow> None)"

fun is_str :: "json \<Rightarrow> bool" where
  "is_str (JStr m) = True"
| "is_str _ = False"

definition normalized :: "env \<Rightarrow> api_service \<Rightarrow> json \<Rightarrow> bool" where
  "normalized env s result =
     (case result of
        JObj kvs \<Rightarrow>
          (case map_of kvs ''success'' of
             Some (JBool ok) \<Rightarrow>
               ok \<or> (case map_of kvs ''message'' of
                       None \<Rightarrow> False
                     | Some m \<Rightarrow> is_str m \<or> server_message env s = Some m)
           | _ \<Rightarrow> False)
      | _ \<Rightarrow> False)"

definition error_shaped :: "json \<Rightarrow> bool" where
  "error_shaped result =
     (case result of
        JObj kvs \<Rightarrow>
          map_of kvs ''success'' = Some (JBool False) \<and>
          (case map_of kvs ''error'' of Some m \<Rightarrow> is_str m | None \<Rightarrow> False) \<and>
          map_of kvs ''message'' = None
      | _ \<Rightarrow> False)"

text \<open>Where the value returned by \<open>_auth_fetch\<close> can come from.\<close>

definition from_server :: "env \<Rightarrow> api_service \<Rightarrow> json \<Rightarrow> bool" where
  "from_server env s response =
     (response = not_logged_in
      \<or> (\<exists>e. response = failure e)
      \<or> fetch_data (net env (length (http_log s))) = Inr response)"

subsection \<open>Example collaborators and clients\<close>

text \<open>
  A network that refuses every connection, one that answers every request with status 200
  and a given JSON body, and one that times out twice before it answers; the keyring never
  fails in any of them. \<open>b64encode\<close> is right on the credentials of the examples; the other
  library functions are placeholders, as no example looks at a request body.
\<close>

definition refusing_env :: env where
  "refusing_env =
     \<lparr> net = (\<lambda>k. Raises (ClientError ''Connection refused'')),
       kr_fault = (\<lambda>op stored. None),
       b64encode = (\<lambda>t. if t = ''+48111222333:pw'' then ''KzQ4MTExMjIyMzMzOnB3'' else t),
       json_dumps = (\<lambda>j. []), py_repr = (\<lambda>j. []), clock = 0 \<rparr>"

definition ok_reply :: "json \<Rightarrow> http_reply" where
  "ok_reply body_json =
     \<lparr> reply_status = 200, reply_is_json = True, reply_text = [], reply_json = Inr body_json \<rparr>"

definition serving_env :: "json \<Rightarrow> env" where
  "serving_env body_json = refusing_env\<lparr> net := (\<lambda>k. Replies (ok_reply body_json)) \<rparr>"

definition success_body :: json where
  "success_body = JObj [(''success'', JBool True)]"

definition flaky_env :: env where
  "flaky_env =
     refusing_env\<lparr> net := (\<lambda>k. if k < 2 then Raises (TimeoutError ''timed out'')
                                else Replies (ok_reply success_body)) \<rparr>"

definition fresh_service :: api_service where
  "fresh_service = new_api_service (\<lambda>k. None)"

text \<open>
  A client with credentials on which \<open>is_logged_in\<close> has been set: the attribute is public,
  and \<open>login\<close> itself never reaches the assignment, its request being made with a
  \<open>method\<close> in the options. And a client whose credentials were saved.
\<close>

definition initialized_service :: api_service where
  "initialized_service = initialize refusing_env ''+48111222333'' ''pw'' None fresh_service"

definition logged_in_service :: api_service where
  "logged_in_service = initialized_service\<lparr> is_logged_in := True, driver_id := Some 15 \<rparr>"

definition saved_service :: api_service where
  "saved_service =
     save_credentials refusing_env ''+48111222333'' ''pw'' (Some default_base_url) fresh_service"

text \<open>An order without an id.\<close>

definition order_without_id :: json where
  "order_without_id = JObj [(''status'', JStr ''new'')]"

definition demo_ticks :: "tick_input list" where
  "demo_ticks =
     [StatusTick (Inr success_body),
      PoolTick SoundPlays (Inr (pool_response [order7, order8])),
      PoolTick SoundPlays (Inr (pool_response [order7, order8])),
      PoolTick NoSound (Inr (pool_response [order8])),
      PoolTick SoundRaises (Inr (pool_response [order8]))]"



section \<open>Properties of the reconciler\<close>

lemma presented_simps [simp]:
  "presented [] = 0"
  "presented (e # es) = (if is_presented e then 1 else 0) + presented es"
  "presented (xs @ ys) = presented xs + presented ys"
  by (simp_all add: presented_def)

lemma withdrawn_simps [simp]:
  "withdrawn [] = 0"
  "withdrawn (e # es) = (if e = Toast toast_vanished then 1 else 0) + withdrawn es"
  "withdrawn (xs @ ys) = withdrawn xs + withdrawn ys"
  by (simp_all add: withdrawn_def)

lemmas pool_defs =
  screen_check_order_pool_def screen_check_order_pool_body_def reconcile_def
  look_for_new_order_def show_order_dialog_def close_order_dialog_def play_new_order_sound_def

lemmas example_defs =
  order7_def order8_def pool_response_def online_screen_def showing7_def init_screen_def
  new_pool_orders_of_def is_acceptable_def lower_char_def py_eq_def toast_vanished_def
  toast_new_order_def success_body_def

text \<open>
  One tick of the pool check does one of three things: nothing that shows (at most the stored
  snapshot changes), the withdrawal of the shown candidate, or the presentation of a new
  one from \<open>Idle\<close>.
\<close>

lemma check_order_pool_events:
  "screen_check_order_pool snd_svc api s = (s', evs) \<Longrightarrow>
     (evs = [] \<and> show_pool_order s' = show_pool_order s \<and>
      current_pool_order s' = current_pool_order s \<and> order_dialog s' = order_dialog s \<and>
      driver_status s' = driver_status s)
   \<or> (show_pool_order s \<and> \<not> show_pool_order s' \<and> current_pool_order s' = None \<and>
       order_dialog s' = None \<and> driver_status s' = driver_status s \<and>
       pool_orders s' = pool_orders s \<and>
       evs = (case order_dialog s of None \<Rightarrow> [] | Some d \<Rightarrow> [DialogDismissed d])
             @ [Toast toast_vanished])
   \<or> (\<not> show_pool_order s \<and> show_pool_order s' \<and> driver_status s' = driver_status s \<and>
       (\<exists>order. current_pool_order s' = Some order \<and> order_dialog s' = Some order \<and>
          evs = play_new_order_sound snd_svc @ [DialogOpened order, Toast toast_new_order]))"
  by (auto simp: pool_defs
      split: sum.splits if_splits option.splits list.splits bool.splits prod.splits)

lemma step_balance:
  assumes "screen_check_order_pool snd_svc api s = (s', evs)"
  shows "presented evs + showing s = withdrawn evs + showing s'"
    and "withdrawn (take n evs) \<le> presented (take n evs) + showing s"
    and "presented (take n evs) + showing s \<le> withdrawn (take n evs) + 1"
  using check_order_pool_events [OF assms]
  by (auto simp: showing_def play_new_order_sound_def toast_new_order_def toast_vanished_def
        take_Cons split: option.splits nat.splits)

lemma tick_balance:
  assumes "tick t s = (s', evs)"
  shows "presented evs + showing s = withdrawn evs + showing s'"
    and "withdrawn (take n evs) \<le> presented (take n evs) + showing s"
    and "presented (take n evs) + showing s \<le> withdrawn (take n evs) + 1"
proof -
  show "presented evs + showing s = withdrawn evs + showing s'"
    using assms step_balance(1)
    by (cases t) (auto simp: fetch_driver_status_def showing_def split: sum.splits if_splits)
  show "withdrawn (take n evs) \<le> presented (take n evs) + showing s"
    using assms step_balance(2)
    by (cases t) (auto simp: fetch_driver_status_def showing_def split: sum.splits if_splits)
  show "presented (take n evs) + showing s \<le> withdrawn (take n evs) + 1"
    using assms step_balance(3)
    by (cases t) (auto simp: fetch_driver_status_def showing_def split: sum.splits if_splits)
qed

text \<open>
  Along a run, from any screen: the candidates presented so far, plus the one shown at the
  start, are the ones withdrawn plus the one shown now; and at every point of the trace the
  count of presented candidates not yet withdrawn is 0 or 1.
\<close>

lemma run_balance:
  "run_ticks ticks s = (s', evs) \<Longrightarrow>
     presented evs + showing s = withdrawn evs + showing s' \<and>
     (\<forall>n. withdrawn (take n evs) \<le> presented (take n evs) + showing s \<and>
          presented (take n evs) + showing s \<le> withdrawn (take n evs) + 1)"
proof (induction ticks arbitrary: s s' evs)
  case Nil
  then show ?case by (auto simp: showing_def)
next
  case (Cons t ts)
  obtain s1 e1 where t1: "tick t s = (s1, e1)" by (cases "tick t s") auto
  obtain s2 e2 where t2: "run_ticks ts s1 = (s2, e2)" by (cases "run_ticks ts s1") auto
  from Cons.prems t1 t2 have evs: "evs = e1 @ e2" and s': "s' = s2" by auto
  note ih = Cons.IH [OF t2]
  note st = tick_balance [OF t1]
  have total: "presented evs + showing s = withdrawn evs + showing s'"
    using ih st(1) by (simp add: evs s')
  have pre: "withdrawn (take n evs) \<le> presented (take n evs) + showing s \<and>
          presented (take n evs) + showing s \<le> withdrawn (take n evs) + 1" for n
  proof (cases "n \<le> length e1")
    case True
    then show ?thesis using st(2) [of n] st(3) [of n] by (simp add: evs)
  next
    case False
    then have "take n evs = e1 @ take (n - length e1) e2" by (simp add: evs)
    moreover have
      "withdrawn (take (n - length e1) e2) \<le> presented (take (n - length e1) e2) + showing s1"
      and "presented (take (n - length e1) e2) + showing s1 \<le> withdrawn (take (n - length e1) e2) + 1"
      using ih by blast+
    ultimately show ?thesis using st(1) by simp
  qed
  show ?case using total pre by blast
qed

lemma showing_init: "showing init_screen = 0"
  by (simp add: showing_def init_screen_def)

lemma poll_while_showing:
  assumes "show_pool_order s" and "screen_check_order_pool snd_svc api s = (s', evs)"
  shows "presented evs = 0 \<and> PlayNewOrderSound \<notin> set evs \<and> Toast toast_new_order \<notin> set evs \<and>
         (current_pool_order s' = current_pool_order s \<or> current_pool_order s' = None)"
  using check_order_pool_events [OF assms(2)] assms(1)
  by (auto simp: toast_new_order_def toast_vanished_def split: option.splits)

lemma exists_False:
  "py_item cur ''id'' = Inr i \<Longrightarrow>
   \<forall>order\<in>set xs. \<exists>j. py_item order ''id'' = Inr j \<and> \<not> py_eq j i \<Longrightarrow>
   current_order_exists cur xs = Inr False"
  by (induction xs) auto

lemma exists_not_False:
  "py_item cur ''id'' = Inr i \<Longrightarrow>
   \<exists>order\<in>set xs. \<exists>j. py_item order ''id'' = Inr j \<and> py_eq j i \<Longrightarrow>
   current_order_exists cur xs \<noteq> Inr False"
  by (induction xs) (auto split: sum.splits)

lemma truthy_has_id: "py_item cur ''id'' = Inr i \<Longrightarrow> truthy cur"
  by (cases cur) auto

lemma vanish_step:
  assumes "driver_status s \<noteq> ''offline''" "show_pool_order s" "current_pool_order s = Some cur"
    "py_item cur ''id'' = Inr i" "py_get response ''success'' JNull = Inr ok" "truthy ok"
    "new_pool_orders_of response = Inr xs"
    "\<forall>order\<in>set xs. \<exists>j. py_item order ''id'' = Inr j \<and> \<not> py_eq j i"
  shows "screen_check_order_pool snd_svc (Inr response) s =
           (s\<lparr> order_dialog := None, show_pool_order := False, current_pool_order := None \<rparr>,
            (case order_dialog s of None \<Rightarrow> [] | Some d \<Rightarrow> [DialogDismissed d])
            @ [Toast toast_vanished])"
  using assms exists_False [OF assms(4) assms(8)] truthy_has_id [OF assms(4)]
  by (simp add: screen_check_order_pool_def screen_check_order_pool_body_def reconcile_def
        close_order_dialog_def)

lemma vanish_counts:
  "withdrawn ((case d of None \<Rightarrow> [] | Some x \<Rightarrow> [DialogDismissed x]) @ [Toast toast_vanished]) = 1"
  "presented ((case d of None \<Rightarrow> [] | Some x \<Rightarrow> [DialogDismissed x]) @ [Toast toast_vanished]) = 0"
  by (simp_all split: option.splits)

lemma safe_check_order_pool_idle: "safe_check_order_pool snd_svc s = (s, [])"
  by (simp add: safe_check_order_pool_def safe_check_pool_with_def)

lemma py_eq_refl: "py_eq a a"
  by (simp add: py_eq_def)

lemma exists_self: "cur \<in> set xs \<Longrightarrow> current_order_exists cur xs \<noteq> Inr False"
  by (induction xs) (auto simp: py_eq_refl split: sum.splits)

lemma acceptable_subset: "acceptable_orders xs = Inr acc \<Longrightarrow> set acc \<subseteq> set xs"
  by (induction xs arbitrary: acc) (auto split: sum.splits if_splits)

lemma acceptable_first: "acceptable_orders xs = Inr (first # rest) \<Longrightarrow> first \<in> set xs"
  using acceptable_subset by fastforce

text \<open>
  A second poll with the same outcome of the API client, from a screen the first one left
  showing a candidate, changes nothing and emits nothing.
\<close>

lemma repoll:
  assumes "screen_check_order_pool snd1 api s0 = (s1, e1)" and "show_pool_order s1"
  shows "screen_check_order_pool snd2 api s1 = (s1, [])"
  using assms
  apply (auto simp: pool_defs
      split: sum.splits if_splits option.splits list.splits bool.splits prod.splits)
   apply (blast dest: acceptable_first exists_self)+
  done

lemma showing_same_id:
  assumes "show_pool_order s" "current_pool_order s = Some cur" "py_item cur ''id'' = Inr i"
    "\<exists>order\<in>set xs. \<exists>j. py_item order ''id'' = Inr j \<and> py_eq j i"
    "new_pool_orders_of response = Inr xs"
    "screen_check_order_pool snd_svc (Inr response) s = (s', evs)"
  shows "evs = [] \<and> show_pool_order s' \<and> current_pool_order s' = Some cur \<and>
         order_dialog s' = order_dialog s"
  using assms exists_not_False [OF assms(3) assms(4)]
  by (auto simp: pool_defs split: sum.splits if_splits bool.splits)

text \<open>
  A successful poll that neither raises nor withdraws the candidate stores the fetched list
  as it is.
\<close>

lemma snapshot_replaced_unless_withdrawn:
  assumes "screen_check_order_pool_body snd_svc (Inr response) s = Inr (s', evs)"
    "driver_status s \<noteq> ''offline''" "py_get response ''success'' JNull = Inr ok" "truthy ok"
    "new_pool_orders_of response = Inr xs" "Toast toast_vanished \<notin> set evs"
  shows "pool_orders s' = xs"
  using assms
  by (auto simp: screen_check_order_pool_body_def reconcile_def look_for_new_order_def
        show_order_dialog_def close_order_dialog_def
      split: sum.splits if_splits option.splits list.splits bool.splits prod.splits)


subsection \<open>One candidate at a time\<close>

text \<open>
  What holds of the reconciler on every input: (1) along every run of pool ticks and status
  fetches from the initial screen, and at every point of its trace, the candidates presented
  and not yet withdrawn number 0 or 1, and 1 exactly when the screen shows one; (2) a tick
  on a screen that shows a candidate opens no dialog, plays no sound and announces no new
  order, and the candidate stays or is cleared; (4) the variant of \<open>home_screen_fixed.py\<close>,
  whose pool is the empty literal, never leaves its initial \<open>Idle\<close>. And what holds when
  every order of the snapshot carries an id: (3) if the driver is not offline, the poll
  succeeded and no order of the snapshot has the shown candidate's id, the tick closes the
  dialog, fires the one "no longer available" toast and leaves the screen \<open>Idle\<close>.
\<close>

lemma single_candidate_with_ids:
  "(\<forall>ticks s evs n. run_ticks ticks init_screen = (s, evs) \<longrightarrow>
       presented evs = withdrawn evs + showing s \<and>
       withdrawn (take n evs) \<le> presented (take n evs) \<and>
       presented (take n evs) \<le> withdrawn (take n evs) + 1)
   \<and> (\<forall>snd_svc api s s' evs.
         show_pool_order s \<and> screen_check_order_pool snd_svc api s = (s', evs) \<longrightarrow>
           presented evs = 0 \<and> PlayNewOrderSound \<notin> set evs \<and> Toast toast_new_order \<notin> set evs \<and>
           (current_pool_order s' = current_pool_order s \<or> current_pool_order s' = None))
   \<and> (\<forall>snd_svc response ok xs s cur i.
         driver_status s \<noteq> ''offline'' \<and> show_pool_order s \<and> current_pool_order s = Some cur \<and>
         py_item cur ''id'' = Inr i \<and> py_get response ''success'' JNull = Inr ok \<and> truthy ok \<and>
         new_pool_orders_of response = Inr xs \<and>
         (\<forall>order\<in>set xs. \<exists>j. py_item order ''id'' = Inr j \<and> \<not> py_eq j i) \<longrightarrow>
           (\<exists>evs. screen_check_order_pool snd_svc (Inr response) s =
                    (s\<lparr> order_dialog := None, show_pool_order := False,
                        current_pool_order := None \<rparr>, evs) \<and>
              evs = (case order_dialog s of None \<Rightarrow> [] | Some d \<Rightarrow> [DialogDismissed d])
                    @ [Toast toast_vanished] \<and>
              withdrawn evs = 1 \<and> presented evs = 0))
   \<and> (\<forall>snd_svc s. safe_check_order_pool snd_svc s = (s, []))"
proof (intro conjI allI impI)
  fix ticks s evs n
  assume run: "run_ticks ticks init_screen = (s, evs)"
  from run_balance [OF run] showing_init
  show "presented evs = withdrawn evs + showing s"
    and "withdrawn (take n evs) \<le> presented (take n evs)"
    and "presented (take n evs) \<le> withdrawn (take n evs) + 1"
    by (simp_all del: presented_simps withdrawn_simps)
next
  fix snd_svc api evs and s s' :: map_screen
  assume h: "show_pool_order s \<and> screen_check_order_pool snd_svc api s = (s', evs)"
  from poll_while_showing [of s snd_svc api s' evs] h
  show "presented evs = 0" and "PlayNewOrderSound \<notin> set evs" and "Toast toast_new_order \<notin> set evs"
    and "current_pool_order s' = current_pool_order s \<or> current_pool_order s' = None"
    by (simp_all del: presented_simps)
next
  fix snd_svc response ok xs cur i and s :: map_screen
  assume h: "driver_status s \<noteq> ''offline'' \<and> show_pool_order s \<and> current_pool_order s = Some cur \<and>
         py_item cur ''id'' = Inr i \<and> py_get response ''success'' JNull = Inr ok \<and> truthy ok \<and>
         new_pool_orders_of response = Inr xs \<and>
         (\<forall>order\<in>set xs. \<exists>j. py_item order ''id'' = Inr j \<and> \<not> py_eq j i)"
  then have "screen_check_order_pool snd_svc (Inr response) s =
           (s\<lparr> order_dialog := None, show_pool_order := False, current_pool_order := None \<rparr>,
            (case order_dialog s of None \<Rightarrow> [] | Some d \<Rightarrow> [DialogDismissed d])
            @ [Toast toast_vanished])"
    using vanish_step [of s cur i response ok xs snd_svc] by blast
  then show "\<exists>evs. screen_check_order_pool snd_svc (Inr response) s =
                    (s\<lparr> order_dialog := None, show_pool_order := False,
                        current_pool_order := None \<rparr>, evs) \<and>
              evs = (case order_dialog s of None \<Rightarrow> [] | Some d \<Rightarrow> [DialogDismissed d])
                    @ [Toast toast_vanished] \<and>
              withdrawn evs = 1 \<and> presented evs = 0"
    using vanish_counts by (simp del: presented_simps withdrawn_simps)
next
  fix snd_svc s
  show "safe_check_order_pool snd_svc s = (s, [])" by (rule safe_check_order_pool_idle)
qed

lemma demo_run:
  "run_ticks demo_ticks init_screen =
     (\<lparr> driver_status = ''online'', show_pool_order = True, current_pool_order = Some order8,
        order_dialog = Some order8, pool_orders = [order8], current_orders = [] \<rparr>,
      [PlayNewOrderSound, DialogOpened order7, Toast toast_new_order,
       DialogDismissed order7, Toast toast_vanished,
       DialogOpened order8, Toast toast_new_order])"
  by (simp add: demo_ticks_def pool_defs example_defs fetch_driver_status_def)

lemma single_candidate_demo:
  "run_ticks demo_ticks init_screen =
     (\<lparr> driver_status = ''online'', show_pool_order = True, current_pool_order = Some order8,
        order_dialog = Some order8, pool_orders = [order8], current_orders = [] \<rparr>,
      [PlayNewOrderSound, DialogOpened order7, Toast toast_new_order,
       DialogDismissed order7, Toast toast_vanished,
       DialogOpened order8, Toast toast_new_order])
   \<and> presented (snd (run_ticks demo_ticks init_screen))
       = withdrawn (snd (run_ticks demo_ticks init_screen)) + showing (fst (run_ticks demo_ticks init_screen))
   \<and> show_pool_order showing7
   \<and> screen_check_order_pool SoundPlays (Inr (pool_response [order7, order8])) showing7
       = (showing7\<lparr> pool_orders := [order7, order8] \<rparr>, [])
   \<and> presented (snd (screen_check_order_pool SoundPlays (Inr (pool_response [order7, order8])) showing7)) = 0
   \<and> driver_status showing7 \<noteq> ''offline'' \<and> current_pool_order showing7 = Some order7
   \<and> py_item order7 ''id'' = Inr (JNum 7)
   \<and> py_item order8 ''id'' = Inr (JNum 8) \<and> \<not> py_eq (JNum 8) (JNum 7)
   \<and> screen_check_order_pool SoundPlays (Inr (pool_response [order8])) showing7
       = (showing7\<lparr> order_dialog := None, show_pool_order := False, current_pool_order := None \<rparr>,
          [DialogDismissed order7, Toast toast_vanished])"
proof -
  note main = single_candidate_with_ids
  have run: "run_ticks demo_ticks init_screen = (fst (run_ticks demo_ticks init_screen), snd (run_ticks demo_ticks init_screen))"
    by simp
  have a: "presented (snd (run_ticks demo_ticks init_screen))
       = withdrawn (snd (run_ticks demo_ticks init_screen)) + showing (fst (run_ticks demo_ticks init_screen))"
    using main [THEN conjunct1, rule_format, OF run, of 0] by blast
  have sh: "show_pool_order showing7" by (simp add: showing7_def)
  have p: "screen_check_order_pool SoundPlays (Inr (pool_response [order7, order8])) showing7
       = (showing7\<lparr> pool_orders := [order7, order8] \<rparr>, [])"
    by (simp add: pool_defs example_defs)
  have b: "presented (snd (screen_check_order_pool SoundPlays (Inr (pool_response [order7, order8])) showing7)) = 0"
    using main [THEN conjunct2, THEN conjunct1, rule_format, of showing7 SoundPlays
        "Inr (pool_response [order7, order8])" "showing7\<lparr> pool_orders := [order7, order8] \<rparr>" "[]"] sh p
    by simp
  have h1: "driver_status showing7 \<noteq> ''offline''" by (simp add: showing7_def)
  have h2: "current_pool_order showing7 = Some order7" by (simp add: showing7_def)
  have h3: "py_item order7 ''id'' = Inr (JNum 7)" by (simp add: order7_def)
  have h4: "py_get (pool_response [order8]) ''success'' JNull = Inr (JBool True)"
    by (simp add: pool_response_def)
  have h5: "truthy (JBool True)" by simp
  have h6: "new_pool_orders_of (pool_response [order8]) = Inr [order8]"
    by (simp add: pool_response_def new_pool_orders_of_def)
  have h7: "\<forall>order\<in>set [order8]. \<exists>j. py_item order ''id'' = Inr j \<and> \<not> py_eq j (JNum 7)"
    by (simp add: order8_def py_eq_def)
  have c: "screen_check_order_pool SoundPlays (Inr (pool_response [order8])) showing7
       = (showing7\<lparr> order_dialog := None, show_pool_order := False, current_pool_order := None \<rparr>,
          [DialogDismissed order7, Toast toast_vanished])"
    using main [THEN conjunct2, THEN conjunct2, THEN conjunct1, rule_format,
        of showing7 order7 "JNum 7" "pool_response [order8]" "JBool True" "[order8]" SoundPlays]
      h1 sh h2 h3 h4 h5 h6 h7
    by (simp add: showing7_def)
  have h8: "py_item order8 ''id'' = Inr (JNum 8)" "\<not> py_eq (JNum 8) (JNum 7)"
    by (simp_all add: order8_def py_eq_def)
  show ?thesis using demo_run a sh p b h1 h2 h3 h8 c by blast
qed

subsection \<open>Claim C1: one candidate at a time\<close>

text \<open>
  C1. For every sequence of pool snapshots fed to the reconciler, at most one candidate
  order is in the state \<open>Showing\<close> at any point; while a candidate is shown, a poll tick does
  not evaluate new candidates; and if the shown candidate's id is absent from the new snapshot
  the reconciler fires exactly one "vanished" event and returns to \<open>Idle\<close>.

  The code misses the last part on a snapshot that holds an order without an id. The screen
  shows order 7, and the poll succeeds with a snapshot of order 8 and an order that has a
  status and no id: the id 7 is absent from it. The existence check reads \<open>order['id']\<close>,
  which raises \<open>KeyError\<close> at the second order; the \<open>except\<close> clause of the method
  swallows it. No toast fires, no dialog is closed, and the screen goes on showing order 7.
  The dialog of the same screen reads the field as \<open>order_data.get('id', 'N/A')\<close>.
\<close>

theorem idless_order_blocks_withdrawal:
  "show_pool_order showing7 \<and> current_pool_order showing7 = Some order7
   \<and> py_item order7 ''id'' = Inr (JNum 7)
   \<and> py_item order8 ''id'' = Inr (JNum 8) \<and> \<not> py_eq (JNum 8) (JNum 7)
   \<and> py_item order_without_id ''id'' = Inl (KeyError ''id'')
   \<and> new_pool_orders_of (pool_response [order8, order_without_id])
       = Inr [order8, order_without_id]
   \<and> current_order_exists order7 [order8, order_without_id] = Inl (KeyError ''id'')
   \<and> screen_check_order_pool SoundPlays (Inr (pool_response [order8, order_without_id])) showing7
       = (showing7, [])
   \<and> withdrawn (snd (screen_check_order_pool SoundPlays
                         (Inr (pool_response [order8, order_without_id])) showing7)) = 0"
  by (simp add: pool_defs example_defs order_without_id_def)

subsection \<open>Claim C6: polling again changes nothing\<close>

text \<open>
  C6. Polling twice with an unchanged pool snapshot whose contents still include the
  currently shown candidate produces zero UI events on the second poll: no new-order event,
  no vanished event and no dialog change.

  First part: whenever a poll leaves the screen showing a candidate, a second poll with the
  same outcome of the API client emits nothing and leaves the screen as it is, whatever the
  sound service does. Second part: on any screen showing a candidate with an id, a poll
  whose snapshot holds an order of that id emits nothing and keeps the candidate and the
  dialog.
\<close>

theorem repoll_idempotent:
  "(\<forall>snd1 snd2 api s0 s1 e1.
      screen_check_order_pool snd1 api s0 = (s1, e1) \<and> show_pool_order s1 \<longrightarrow>
        screen_check_order_pool snd2 api s1 = (s1, []))
   \<and> (\<forall>snd_svc response xs s cur i s' evs.
         show_pool_order s \<and> current_pool_order s = Some cur \<and> py_item cur ''id'' = Inr i \<and>
         new_pool_orders_of response = Inr xs \<and>
         (\<exists>order\<in>set xs. \<exists>j. py_item order ''id'' = Inr j \<and> py_eq j i) \<and>
         screen_check_order_pool snd_svc (Inr response) s = (s', evs) \<longrightarrow>
           evs = [] \<and> show_pool_order s' \<and> current_pool_order s' = Some cur \<and>
           order_dialog s' = order_dialog s)"
proof (intro conjI allI impI)
  fix snd1 snd2 api e1 and s0 s1 :: map_screen
  assume "screen_check_order_pool snd1 api s0 = (s1, e1) \<and> show_pool_order s1"
  then show "screen_check_order_pool snd2 api s1 = (s1, [])"
    using repoll [of snd1 api s0 s1 e1 snd2] by blast
next
  fix snd_svc response xs cur i evs and s s' :: map_screen
  assume h: "show_pool_order s \<and> current_pool_order s = Some cur \<and> py_item cur ''id'' = Inr i \<and>
         new_pool_orders_of response = Inr xs \<and>
         (\<exists>order\<in>set xs. \<exists>j. py_item order ''id'' = Inr j \<and> py_eq j i) \<and>
         screen_check_order_pool snd_svc (Inr response) s = (s', evs)"
  from showing_same_id [of s cur i xs response snd_svc s' evs] h
  show "evs = []" and "show_pool_order s'" and "current_pool_order s' = Some cur"
    and "order_dialog s' = order_dialog s"
    by simp_all
qed

theorem repoll_idempotent_witness:
  "screen_check_order_pool SoundPlays (Inr (pool_response [order7, order8])) online_screen =
     (showing7\<lparr> pool_orders := [order7, order8] \<rparr>,
      [PlayNewOrderSound, DialogOpened order7, Toast toast_new_order])
   \<and> show_pool_order (showing7\<lparr> pool_orders := [order7, order8] \<rparr>)
   \<and> screen_check_order_pool SoundRaises (Inr (pool_response [order7, order8]))
        (showing7\<lparr> pool_orders := [order7, order8] \<rparr>) =
     (showing7\<lparr> pool_orders := [order7, order8] \<rparr>, [])"
proof -
  have first: "screen_check_order_pool SoundPlays (Inr (pool_response [order7, order8])) online_screen =
     (showing7\<lparr> pool_orders := [order7, order8] \<rparr>,
      [PlayNewOrderSound, DialogOpened order7, Toast toast_new_order])"
    by (simp add: pool_defs example_defs)
  have sh: "show_pool_order (showing7\<lparr> pool_orders := [order7, order8] \<rparr>)"
    by (simp add: showing7_def)
  from repoll_idempotent [THEN conjunct1, rule_format,
      of SoundPlays "Inr (pool_response [order7, order8])" online_screen
         "showing7\<lparr> pool_orders := [order7, order8] \<rparr>"
         "[PlayNewOrderSound, DialogOpened order7, Toast toast_new_order]" SoundRaises]
    first sh
  show ?thesis by blast
qed

subsection \<open>Claim C9: the stored snapshot\<close>

text \<open>
  C9. On every successful poll the stored pool snapshot is replaced wholesale by the freshly
  fetched one, including the poll on which the shown candidate vanishes.

  The screen shows order 7 and stores the snapshot that held it; the next poll succeeds with
  an empty pool. The method withdraws the candidate and returns before its assignment to
  \<open>pool_orders\<close>: the stored snapshot is still the old one, not the empty list just fetched.
  (On the other paths of a successful poll the assignment is reached, see
  \<open>snapshot_replaced_unless_withdrawn\<close>.)
\<close>

theorem vanish_poll_keeps_stale_snapshot:
  "screen_check_order_pool SoundPlays (Inr (pool_response [])) showing7 =
     (showing7\<lparr> order_dialog := None, show_pool_order := False, current_pool_order := None \<rparr>,
      [DialogDismissed order7, Toast toast_vanished])
   \<and> pool_orders (fst (screen_check_order_pool SoundPlays (Inr (pool_response [])) showing7))
       = [order7]
   \<and> new_pool_orders_of (pool_response []) = Inr []"
  by (simp add: pool_defs example_defs)

section \<open>Properties of the API client\<close>

subsection \<open>The retry loop\<close>

text \<open>
  The loop from attempt \<open>a\<close> on, when the requests up to the \<open>N\<close>-th fail at the network
  level: it succeeds at attempt \<open>N\<close> if that is within the retries, and gives up at the last
  attempt otherwise, having slept before each retry.
\<close>

lemma attempts_succeed:
  assumes "0 \<le> retries" "N \<le> nat retries"
    "\<forall>k<N. \<exists>e. net env (k0 + k) = Raises e \<and> is_network_error e"
    "attempt_result env endpoint (net env (k0 + N)) = Inr response"
  shows "a \<le> N \<Longrightarrow> length (http_log s) = k0 + a \<Longrightarrow>
     request_attempts env req endpoint retries [a ..< nat (retries + 1)] s =
       (Inr response,
        s\<lparr> http_log := http_log s @ replicate (N - a + 1) req,
           sleeps := sleeps s @ map (\<lambda>i. retry_delay s * 2 ^ i) [a ..< N] \<rparr>)"
proof (induction "N - a" arbitrary: a s)
  case 0
  then have aN: "a = N" by simp
  have "[a ..< nat (retries + 1)] = a # [Suc a ..< nat (retries + 1)]"
    using assms(1,2) aN by (simp add: upt_conv_Cons)
  then show ?case using assms(4) 0 aN by simp
next
  case (Suc d)
  then have lt: "a < N" by simp
  obtain e where e: "net env (k0 + a) = Raises e" "is_network_error e"
    using assms(3) lt by blast
  have up: "[a ..< nat (retries + 1)] = a # [Suc a ..< nat (retries + 1)]"
    using assms(1,2) lt by (simp add: upt_conv_Cons)
  have lt': "int a < retries" using lt assms(2) by linarith
  let ?s1 = "s\<lparr> http_log := http_log s @ [req], sleeps := sleeps s @ [retry_delay s * 2 ^ a] \<rparr>"
  have ih: "request_attempts env req endpoint retries [Suc a ..< nat (retries + 1)] ?s1 =
       (Inr response,
        ?s1\<lparr> http_log := http_log ?s1 @ replicate (N - Suc a + 1) req,
           sleeps := sleeps ?s1 @ map (\<lambda>i. retry_delay ?s1 * 2 ^ i) [Suc a ..< N] \<rparr>)"
    using Suc.hyps(1) [of "Suc a" ?s1] Suc.hyps(2) Suc.prems lt by simp
  have rep: "replicate (N - a + 1) req = req # replicate (N - Suc a + 1) req"
    using lt by (simp add: Suc_diff_le replicate_Suc [symmetric] del: replicate_Suc)
  have "[a ..< N] = a # [Suc a ..< N]" using lt by (simp add: upt_conv_Cons)
  then show ?case
    using ih e lt' Suc.prems up rep by (simp add: attempt_result_def)
qed


lemma attempts_give_up:
  assumes "0 \<le> retries"
    "\<forall>k \<le> nat retries. \<exists>e. net env (k0 + k) = Raises e \<and> is_network_error e"
  shows "a \<le> nat retries \<Longrightarrow> length (http_log s) = k0 + a \<Longrightarrow>
     \<exists>e. is_network_error e \<and> net env (k0 + nat retries) = Raises e \<and>
     request_attempts env req endpoint retries [a ..< nat (retries + 1)] s =
       (Inl (APIConnectionError
               (''Failed after '' @ str_int (retries + 1) @ '' attempts: '' @ str_exn e)),
        s\<lparr> http_log := http_log s @ replicate (nat retries - a + 1) req,
           sleeps := sleeps s @ map (\<lambda>i. retry_delay s * 2 ^ i) [a ..< nat retries] \<rparr>)"
proof (induction "nat retries - a" arbitrary: a s)
  case 0
  then have aR: "a = nat retries" by simp
  obtain e where e: "net env (k0 + a) = Raises e" "is_network_error e"
    using assms(2) aR by blast
  have up: "[a ..< nat (retries + 1)] = [a]"
    using assms(1) aR by (simp add: upt_conv_Cons nat_add_distrib)
  have nlt: "\<not> int a < retries" using aR assms(1) by simp
  show ?case
    using e up nlt 0 aR by (auto simp: attempt_result_def)
next
  case (Suc d)
  then have lt: "a < nat retries" by simp
  obtain e where e: "net env (k0 + a) = Raises e" "is_network_error e"
    using assms(2) lt by (meson less_imp_le)
  have up: "[a ..< nat (retries + 1)] = a # [Suc a ..< nat (retries + 1)]"
    using assms(1) lt by (simp add: upt_conv_Cons)
  have lt': "int a < retries" using lt by linarith
  let ?s1 = "s\<lparr> http_log := http_log s @ [req], sleeps := sleeps s @ [retry_delay s * 2 ^ a] \<rparr>"
  obtain e' where ih: "is_network_error e'" "net env (k0 + nat retries) = Raises e'"
    "request_attempts env req endpoint retries [Suc a ..< nat (retries + 1)] ?s1 =
       (Inl (APIConnectionError
               (''Failed after '' @ str_int (retries + 1) @ '' attempts: '' @ str_exn e')),
        ?s1\<lparr> http_log := http_log ?s1 @ replicate (nat retries - Suc a + 1) req,
           sleeps := sleeps ?s1 @ map (\<lambda>i. retry_delay ?s1 * 2 ^ i) [Suc a ..< nat retries] \<rparr>)"
  proof -
    have p1: "d = nat retries - Suc a" using Suc.hyps(2) by simp
    have p2: "Suc a \<le> nat retries" using lt by simp
    have p3: "length (http_log ?s1) = k0 + Suc a" using Suc.prems by simp
    from Suc.hyps(1) [OF p1 p2 p3] show ?thesis using that by blast
  qed
  have rep: "replicate (nat retries - a + 1) req = req # replicate (nat retries - Suc a + 1) req"
    using lt by (simp add: Suc_diff_le replicate_Suc [symmetric] del: replicate_Suc)
  have "[a ..< nat retries] = a # [Suc a ..< nat retries]" using lt by (simp add: upt_conv_Cons)
  then show ?case
    using ih e lt' Suc.prems up rep by (simp add: attempt_result_def)
qed

subsection \<open>The authenticated fetch\<close>

lemma auth_fetch_not_logged_in:
  "\<not> is_logged_in s \<Longrightarrow> auth_fetch env endpoint options s = (not_logged_in, s)"
  by (simp add: auth_fetch_def not_logged_in_def)

lemma auth_fetch_log:
  "length (http_log (snd (auth_fetch env endpoint options s))) \<le> Suc (length (http_log s))"
  "sleeps (snd (auth_fetch env endpoint options s)) = sleeps s"
  "keyring (snd (auth_fetch env endpoint options s)) = keyring s"
  by (simp_all add: auth_fetch_def fetch_with_logging_def Let_def split: option.splits sum.splits)

text \<open>
  A logged-in client: without a \<open>method\<close> in the options one request goes out and its
  outcome comes back; with one, nothing goes out and the \<open>TypeError\<close> comes back as a
  failure.
\<close>

lemma auth_fetch_logged_in:
  "is_logged_in s \<Longrightarrow> opt_method options = None \<Longrightarrow>
   fst (auth_fetch env endpoint options s) =
     (case fetch_data (net env (length (http_log s))) of Inl e \<Rightarrow> failure e | Inr d \<Rightarrow> d)"
  "is_logged_in s \<Longrightarrow> opt_method options = None \<Longrightarrow>
   length (http_log (snd (auth_fetch env endpoint options s))) = Suc (length (http_log s))"
  by (auto simp: auth_fetch_def fetch_with_logging_def Let_def failure_def
        split: sum.splits option.splits)

lemma auth_fetch_with_method:
  "is_logged_in s \<Longrightarrow> opt_method options = Some m \<Longrightarrow>
   fst (auth_fetch env endpoint options s) = failure duplicate_method"
  "is_logged_in s \<Longrightarrow> opt_method options = Some m \<Longrightarrow>
   http_log (snd (auth_fetch env endpoint options s)) = http_log s"
  by (auto simp: auth_fetch_def fetch_with_logging_def Let_def failure_def duplicate_method_def
        split: sum.splits option.splits)

lemmas endpoint_defs = check_order_pool_def get_current_orders_def get_driver_profile_def
  accept_order_def start_order_def complete_order_def cancel_order_def update_location_def
  update_driver_status_def get_order_details_def get_order_storage_details_def

lemma py_eq_str [simp]: "py_eq v (JStr t) = (v = JStr t)"
  by (cases v) (auto simp: py_eq_def)

lemma refused_before_login:
  assumes "\<not> is_logged_in s"
  shows "accept_order env order_id s = (not_logged_in, s)"
    "start_order env order_id s = (not_logged_in, s)"
    "complete_order env order_id s = (not_logged_in, s)"
    "cancel_order env order_id reason s = (not_logged_in, s)"
    "update_location env latitude longitude s = (not_logged_in, s)"
    "update_driver_status env status s = (not_logged_in, s)"
    "check_order_pool env s = (pool_of [], s)"
    "get_current_orders env s = (pool_of [], s)"
    "get_driver_profile env s = (fallback_profile s, s)"
  using assms
  by (simp_all add: endpoint_defs auth_fetch_not_logged_in not_logged_in_def pool_of_def dget_def fallback_profile_def)

lemma one_request_each:
  "length (http_log (snd (accept_order env order_id s))) \<le> length (http_log s) + 1 \<and> sleeps (snd (accept_order env order_id s)) = sleeps s"
  "length (http_log (snd (start_order env order_id s))) \<le> length (http_log s) + 1 \<and> sleeps (snd (start_order env order_id s)) = sleeps s"
  "length (http_log (snd (complete_order env order_id s))) \<le> length (http_log s) + 1 \<and> sleeps (snd (complete_order env order_id s)) = sleeps s"
  "length (http_log (snd (cancel_order env order_id reason s))) \<le> length (http_log s) + 1 \<and> sleeps (snd (cancel_order env order_id reason s)) = sleeps s"
  "length (http_log (snd (update_location env latitude longitude s))) \<le> length (http_log s) + 1 \<and> sleeps (snd (update_location env latitude longitude s)) = sleeps s"
  "length (http_log (snd (update_driver_status env status s))) \<le> length (http_log s) + 1 \<and> sleeps (snd (update_driver_status env status s)) = sleeps s"
  "length (http_log (snd (check_order_pool env s))) \<le> length (http_log s) + 1 \<and> sleeps (snd (check_order_pool env s)) = sleeps s"
  "length (http_log (snd (get_current_orders env s))) \<le> length (http_log s) + 1 \<and> sleeps (snd (get_current_orders env s)) = sleeps s"
  "length (http_log (snd (get_driver_profile env s))) \<le> length (http_log s) + 1 \<and> sleeps (snd (get_driver_profile env s)) = sleeps s"
  by (simp_all add: endpoint_defs case_prod_beta auth_fetch_log)

lemma auth_fetch_identity:
  "driver_id (snd (auth_fetch env endpoint options s)) = driver_id s"
  "phone (snd (auth_fetch env endpoint options s)) = phone s"
  by (simp_all add: auth_fetch_def fetch_with_logging_def Let_def split: option.splits sum.splits)

lemma fallback_profile_after:
  "fallback_profile (snd (get_driver_profile env s)) = fallback_profile s"
  by (simp add: get_driver_profile_def case_prod_beta fallback_profile_def auth_fetch_identity)

text \<open>
  The three methods that fetch with no \<open>method\<close> in the options, when the library raises
  at their one request.
\<close>

lemma transport_failure_each:
  assumes "is_logged_in s" "net env (length (http_log s)) = Raises e"
  shows "fst (check_order_pool env s) = pool_of []"
    "fst (get_current_orders env s) = pool_of []"
    "fst (get_driver_profile env s) = fallback_profile s"
    "length (http_log (snd (check_order_pool env s))) = length (http_log s) + 1"
    "length (http_log (snd (get_current_orders env s))) = length (http_log s) + 1"
    "length (http_log (snd (get_driver_profile env s))) = length (http_log s) + 1"
  using assms fallback_profile_after [of env s]
  by (simp_all add: endpoint_defs case_prod_beta auth_fetch_logged_in failure_def fetch_data_def
        pool_of_def dget_def fallback_profile_def no_options_def auth_fetch_identity)

text \<open>
  The six methods that put \<open>method\<close> in the options, on a logged-in client: nothing is
  sent, and the result carries the text of the \<open>TypeError\<close>.
\<close>

lemma posting_methods_send_nothing:
  assumes "is_logged_in s"
  shows "fst (accept_order env order_id s) = failure duplicate_method"
    "fst (start_order env order_id s) = failure duplicate_method"
    "fst (complete_order env order_id s) = failure duplicate_method"
    "fst (cancel_order env order_id reason s) = failure duplicate_method"
    "fst (update_location env latitude longitude s) = failure duplicate_method"
    "fst (update_driver_status env status s) = failure duplicate_method"
    "http_log (snd (accept_order env order_id s)) = http_log s"
    "http_log (snd (update_location env latitude longitude s)) = http_log s"
  using assms
  by (simp_all add: endpoint_defs case_prod_beta auth_fetch_with_method [where m = "''POST''"]
        post_options_def failure_def dget_def duplicate_method_def)

subsection \<open>Claim C3: retries and backoff\<close>

text \<open>
  C3. For \<open>request()\<close>, the retrying transport \<open>_make_request\<close>, with \<open>maxRetries\<close>
  configured: if \<open>N\<close> consecutive network-level failures are followed by a success and
  \<open>maxRetries \<ge> N\<close>, the call returns the success response; if \<open>maxRetries < N\<close>, it fails
  with a network-error classification after exactly \<open>maxRetries + 1\<close> attempts; the wait
  before each retry is \<open>base_delay * 2 ^ attempt\<close>, attempts counted from 0.

  \<open>retries\<close> is the count in force (the argument, or \<open>max_retries\<close> without one), a
  non-negative number. The requests handed to the HTTP library are counted by \<open>http_log\<close>,
  the waits are the entries added to \<open>sleeps\<close>. The failure is the \<open>APIConnectionError\<close>
  of the network branch, "Failed after ... attempts", carrying the text of the last network
  exception.
\<close>

theorem request_retry_backoff:
  assumes "retries = effective_retries retries_arg s" and "0 \<le> retries"
    and "\<forall>k<N. \<exists>e. net env (length (http_log s) + k) = Raises e \<and> is_network_error e"
    and "net env (length (http_log s) + N) = Replies r" and "reply_json r = Inr response"
    and "reply_status r < 400"
  shows "(int N \<le> retries \<longrightarrow>
           (\<exists>s'. make_request env method endpoint data headers retries_arg s = (Inr response, s') \<and>
                 length (http_log s') = length (http_log s) + N + 1 \<and>
                 sleeps s' = sleeps s @ backoff s N)) \<and>
         (retries < int N \<longrightarrow>
           (\<exists>s' e. make_request env method endpoint data headers retries_arg s =
                     (Inl (APIConnectionError
                             (''Failed after '' @ str_int (retries + 1) @ '' attempts: ''
                              @ str_exn e)), s') \<and>
                   is_network_error e \<and>
                   length (http_log s') = length (http_log s) + nat (retries + 1) \<and>
                   sleeps s' = sleeps s @ backoff s (nat retries)))"
proof (intro conjI impI)
  let ?s1 = "s\<lparr> last_endpoint := Some endpoint \<rparr>"
  let ?req = "\<lparr> req_method = method, req_url = fmt_opt (base_url ?s1) @ endpoint,
                  req_headers = request_headers ?s1 headers, req_json = data, req_data = None \<rparr>"
  have ok: "attempt_result env endpoint (net env (length (http_log s) + N)) = Inr response"
    using assms(4,5,6) by (simp add: attempt_result_def)
  {
    assume le: "int N \<le> retries"
    then have "N \<le> nat retries" by linarith
    from attempts_succeed [OF assms(2) this assms(3) ok, of 0 ?s1 ?req]
    show "\<exists>s'. make_request env method endpoint data headers retries_arg s = (Inr response, s') \<and>
                 length (http_log s') = length (http_log s) + N + 1 \<and>
                 sleeps s' = sleeps s @ backoff s N"
      using assms(1) by (simp add: make_request_def effective_retries_def backoff_def Let_def)
  }
  {
    assume lt: "retries < int N"
    then have "\<forall>k \<le> nat retries. \<exists>e. net env (length (http_log s) + k) = Raises e \<and> is_network_error e"
      using assms(2,3) by (metis le_less_trans nat_less_iff nat_int zless_nat_conj)
    from attempts_give_up [OF assms(2) this, of 0 ?s1 ?req endpoint]
    show "\<exists>s' e. make_request env method endpoint data headers retries_arg s =
                     (Inl (APIConnectionError
                             (''Failed after '' @ str_int (retries + 1) @ '' attempts: ''
                              @ str_exn e)), s') \<and>
                   is_network_error e \<and>
                   length (http_log s') = length (http_log s) + nat (retries + 1) \<and>
                   sleeps s' = sleeps s @ backoff s (nat retries)"
      using assms(1,2) by (auto simp: make_request_def effective_retries_def backoff_def nat_add_distrib Let_def)
  }
qed

theorem request_retry_backoff_witness:
  "net flaky_env 0 = Raises (TimeoutError ''timed out'')
   \<and> net flaky_env 1 = Raises (TimeoutError ''timed out'')
   \<and> net flaky_env 2 = Replies (ok_reply success_body)
   \<and> fst (make_request flaky_env ''GET'' ''/api/health'' None None None fresh_service)
       = Inr success_body
   \<and> length (http_log (snd (make_request flaky_env ''GET'' ''/api/health'' None None None
                              fresh_service))) = 3
   \<and> sleeps (snd (make_request flaky_env ''GET'' ''/api/health'' None None None fresh_service))
       = [1, 2]
   \<and> fst (make_request flaky_env ''GET'' ''/api/health'' None None (Some 1) fresh_service)
       = Inl (APIConnectionError ''Failed after 2 attempts: timed out'')
   \<and> length (http_log (snd (make_request flaky_env ''GET'' ''/api/health'' None None (Some 1)
                              fresh_service))) = 2
   \<and> sleeps (snd (make_request flaky_env ''GET'' ''/api/health'' None None (Some 1)
                      fresh_service)) = [1]"
proof -
  have fails: "\<forall>k<2. \<exists>e. net flaky_env (length (http_log fresh_service) + k) = Raises e \<and>
                 is_network_error e"
    by (simp add: flaky_env_def refusing_env_def fresh_service_def new_api_service_def)
  have answers: "net flaky_env (length (http_log fresh_service) + 2) = Replies (ok_reply success_body)"
    by (simp add: flaky_env_def refusing_env_def fresh_service_def new_api_service_def)
  have body_ok: "reply_json (ok_reply success_body) = Inr success_body"
    and status: "reply_status (ok_reply success_body) < 400"
    by (simp_all add: ok_reply_def)
  have r3: "(3::int) = effective_retries None fresh_service"
    and r1: "(1::int) = effective_retries (Some 1) fresh_service"
    by (simp_all add: effective_retries_def fresh_service_def new_api_service_def)
  have zero: "(0::int) \<le> 3" "(0::int) \<le> 1" by simp_all
  note ok = request_retry_backoff [OF r3 zero(1) fails answers body_ok status,
      of "''GET''" "''/api/health''" None None, THEN conjunct1]
  note ko = request_retry_backoff [OF r1 zero(2) fails answers body_ok status,
      of "''GET''" "''/api/health''" None None, THEN conjunct2]
  have nets: "net flaky_env 0 = Raises (TimeoutError ''timed out'')"
    "net flaky_env 1 = Raises (TimeoutError ''timed out'')"
    "net flaky_env 2 = Replies (ok_reply success_body)"
    by (simp_all add: flaky_env_def refusing_env_def)
  from ok obtain s' where s': "make_request flaky_env ''GET'' ''/api/health'' None None None fresh_service
      = (Inr success_body, s')" "length (http_log s') = length (http_log fresh_service) + 2 + 1"
      "sleeps s' = sleeps fresh_service @ backoff fresh_service 2"
    by auto
  have good: "fst (make_request flaky_env ''GET'' ''/api/health'' None None None fresh_service)
       = Inr success_body
   \<and> length (http_log (snd (make_request flaky_env ''GET'' ''/api/health'' None None None
                              fresh_service))) = 3
   \<and> sleeps (snd (make_request flaky_env ''GET'' ''/api/health'' None None None fresh_service))
       = [1, 2]"
    using s' by (simp add: backoff_def fresh_service_def new_api_service_def upt_rec)
  have bad: "fst (make_request flaky_env ''GET'' ''/api/health'' None None (Some 1) fresh_service)
       = Inl (APIConnectionError ''Failed after 2 attempts: timed out'')
   \<and> length (http_log (snd (make_request flaky_env ''GET'' ''/api/health'' None None (Some 1)
                              fresh_service))) = 2
   \<and> sleeps (snd (make_request flaky_env ''GET'' ''/api/health'' None None (Some 1)
                      fresh_service)) = [1]"
    by (simp add: make_request_def attempt_result_def flaky_env_def refusing_env_def
          fresh_service_def new_api_service_def upt_rec str_int_def request_headers_def)
  show ?thesis using nets good bad by blast
qed

subsection \<open>Claim C4: the pool response, normalized\<close>

text \<open>
  C4. \<open>checkOrderPool\<close> maps a response shaped \<open>{success: true, data: [...]}\<close>,
  \<open>{status: "success", orders: [...]}\<close> or \<open>{success: true, orders: [...]}\<close> to the same
  normalized \<open>{success: true, data: [...]}\<close> with identical list contents; for a response with
  \<open>success\<close> false or with none of those fields present it returns
  \<open>{success: true, data: []}\<close> rather than an error.

  As the code has it. The client is logged in and the server answers the one request
  with a JSON body. When the body is an object with the entries \<open>kvs\<close>, the branches are
  tried in the order of the source: (1) truthy \<open>success\<close> and a list under \<open>data\<close> give that
  list; (2) otherwise \<open>status\<close> equal to \<open>"success"\<close> and a list under \<open>orders\<close> give that
  list, whatever \<open>success\<close> is; (3) otherwise truthy \<open>success\<close> and a list under \<open>orders\<close>
  give that list; (4) a body whose \<open>success\<close> is not truthy and that is not of the second
  shape, and (5) a body with no list under \<open>data\<close> and nothing under \<open>orders\<close>, give
  \<open>{success: true, data: []}\<close>. When the body is not an object (a list, a string, a number,
  a boolean, null), the result is \<open>{success: false, message, data: []}\<close>.
\<close>

theorem pool_normalization:
  assumes "is_logged_in s" "net env (length (http_log s)) = Replies r" "reply_is_json r"
    "reply_json r = Inr body"
  shows "(body = JObj kvs \<longrightarrow>
       (truthy (dget kvs ''success'') \<and> dget kvs ''data'' = JList xs \<longrightarrow> fst (check_order_pool env s) = pool_of xs)
     \<and> (dget kvs ''status'' = JStr ''success'' \<and> dget kvs ''orders'' = JList xs \<and> \<not> (truthy (dget kvs ''success'') \<and> is_list (dget kvs ''data'')) \<longrightarrow> fst (check_order_pool env s) = pool_of xs)
     \<and> (truthy (dget kvs ''success'') \<and> dget kvs ''orders'' = JList xs \<and> \<not> is_list (dget kvs ''data'') \<longrightarrow> fst (check_order_pool env s) = pool_of xs)
     \<and> (\<not> truthy (dget kvs ''success'') \<and> \<not> (dget kvs ''status'' = JStr ''success'' \<and> is_list (dget kvs ''orders'')) \<longrightarrow> fst (check_order_pool env s) = pool_of [])
     \<and> (\<not> is_list (dget kvs ''data'') \<and> \<not> truthy (dget kvs ''orders'') \<and> \<not> is_list (dget kvs ''orders'') \<longrightarrow> fst (check_order_pool env s) = pool_of []))
   \<and> ((\<forall>entries. body \<noteq> JObj entries) \<longrightarrow>
        fst (check_order_pool env s) =
          JObj [(''success'', JBool False), (''message'', JStr (str_exn no_get)),
                (''data'', JList [])])"
proof -
  have fetched: "fst (auth_fetch env ''/api/driver2/15/pool'' no_options s) = body"
    using assms auth_fetch_logged_in(1) [OF assms(1), of no_options env "''/api/driver2/15/pool''"]
    by (simp add: fetch_data_def no_options_def)
  have obj: "body = JObj kvs \<longrightarrow>
       (truthy (dget kvs ''success'') \<and> dget kvs ''data'' = JList xs \<longrightarrow> fst (check_order_pool env s) = pool_of xs)
     \<and> (dget kvs ''status'' = JStr ''success'' \<and> dget kvs ''orders'' = JList xs \<and> \<not> (truthy (dget kvs ''success'') \<and> is_list (dget kvs ''data'')) \<longrightarrow> fst (check_order_pool env s) = pool_of xs)
     \<and> (truthy (dget kvs ''success'') \<and> dget kvs ''orders'' = JList xs \<and> \<not> is_list (dget kvs ''data'') \<longrightarrow> fst (check_order_pool env s) = pool_of xs)
     \<and> (\<not> truthy (dget kvs ''success'') \<and> \<not> (dget kvs ''status'' = JStr ''success'' \<and> is_list (dget kvs ''orders'')) \<longrightarrow> fst (check_order_pool env s) = pool_of [])
     \<and> (\<not> is_list (dget kvs ''data'') \<and> \<not> truthy (dget kvs ''orders'') \<and> \<not> is_list (dget kvs ''orders'') \<longrightarrow> fst (check_order_pool env s) = pool_of [])"
    using fetched by (auto simp: check_order_pool_def pool_of_def case_prod_beta)
  have other: "(\<forall>entries. body \<noteq> JObj entries) \<longrightarrow>
        fst (check_order_pool env s) =
          JObj [(''success'', JBool False), (''message'', JStr (str_exn no_get)),
                (''data'', JList [])]"
    using fetched by (cases body) (simp_all add: check_order_pool_def case_prod_beta)
  show ?thesis using obj other by blast
qed

theorem pool_normalization_witness:
  "is_logged_in logged_in_service
   \<and> fst (check_order_pool
          (serving_env (JObj [(''success'', JBool True), (''data'', JList [order7, order8])]))
          logged_in_service) = pool_of [order7, order8]
   \<and> fst (check_order_pool
          (serving_env (JObj [(''status'', JStr ''success''), (''orders'', JList [order7, order8])]))
          logged_in_service) = pool_of [order7, order8]
   \<and> fst (check_order_pool
          (serving_env (JObj [(''success'', JBool True), (''orders'', JList [order7, order8])]))
          logged_in_service) = pool_of [order7, order8]
   \<and> fst (check_order_pool (serving_env (JObj [(''success'', JBool False)])) logged_in_service)
       = pool_of []
   \<and> fst (check_order_pool (serving_env (JObj [])) logged_in_service) = pool_of []
   \<and> fst (check_order_pool (serving_env JNull) logged_in_service)
       = JObj [(''success'', JBool False), (''message'', JStr (str_exn no_get)),
               (''data'', JList [])]"
proof -
  let ?k1 = "[(''success'', JBool True), (''data'', JList [order7, order8])]"
  let ?k2 = "[(''status'', JStr ''success''), (''orders'', JList [order7, order8])]"
  let ?k3 = "[(''success'', JBool True), (''orders'', JList [order7, order8])]"
  let ?k4 = "[(''success'', JBool False)]"
  have li: "is_logged_in logged_in_service"
    by (simp add: logged_in_service_def)
  have rep: "net (serving_env b) (length (http_log logged_in_service)) = Replies (ok_reply b)" for b
    by (simp add: serving_env_def refusing_env_def)
  have js: "reply_is_json (ok_reply b)" "reply_json (ok_reply b) = Inr b" for b
    by (simp_all add: ok_reply_def)
  have a: "fst (check_order_pool (serving_env (JObj ?k1)) logged_in_service) = pool_of [order7, order8]"
    using pool_normalization [where env = "serving_env (JObj ?k1)" and s = logged_in_service
        and r = "ok_reply (JObj ?k1)" and body = "JObj ?k1" and kvs = ?k1 and xs = "[order7, order8]",
        OF li rep js(1) js(2), THEN conjunct1]
    by (simp add: dget_def)
  have b: "fst (check_order_pool (serving_env (JObj ?k2)) logged_in_service) = pool_of [order7, order8]"
    using pool_normalization [where env = "serving_env (JObj ?k2)" and s = logged_in_service
        and r = "ok_reply (JObj ?k2)" and body = "JObj ?k2" and kvs = ?k2 and xs = "[order7, order8]",
        OF li rep js(1) js(2), THEN conjunct1]
    by (simp add: dget_def)
  have c: "fst (check_order_pool (serving_env (JObj ?k3)) logged_in_service) = pool_of [order7, order8]"
    using pool_normalization [where env = "serving_env (JObj ?k3)" and s = logged_in_service
        and r = "ok_reply (JObj ?k3)" and body = "JObj ?k3" and kvs = ?k3 and xs = "[order7, order8]",
        OF li rep js(1) js(2), THEN conjunct1]
    by (simp add: dget_def)
  have d: "fst (check_order_pool (serving_env (JObj ?k4)) logged_in_service) = pool_of []"
    using pool_normalization [where env = "serving_env (JObj ?k4)" and s = logged_in_service
        and r = "ok_reply (JObj ?k4)" and body = "JObj ?k4" and kvs = ?k4 and xs = "[]",
        OF li rep js(1) js(2), THEN conjunct1]
    by (simp add: dget_def)
  have e: "fst (check_order_pool (serving_env (JObj [])) logged_in_service) = pool_of []"
    using pool_normalization [where env = "serving_env (JObj [])" and s = logged_in_service
        and r = "ok_reply (JObj [])" and body = "JObj []" and kvs = "[]" and xs = "[]",
        OF li rep js(1) js(2), THEN conjunct1]
    by (simp add: dget_def)
  have f: "fst (check_order_pool (serving_env JNull) logged_in_service)
       = JObj [(''success'', JBool False), (''message'', JStr (str_exn no_get)),
               (''data'', JList [])]"
    using pool_normalization [where env = "serving_env JNull" and s = logged_in_service
        and r = "ok_reply JNull" and body = JNull, OF li rep js(1) js(2), THEN conjunct2]
    by simp
  show ?thesis using li a b c d e f by blast
qed

text \<open>
  C4 as stated fails twice. A body \<open>{success: false, status: "success", orders: [o]}\<close>
  has \<open>success\<close> false and yet comes back with its orders, through the second branch of
  the method; and a body that is no JSON object, here the bare list \<open>[]\<close>, has none of the
  fields and comes back as \<open>success\<close> false with a message and an empty \<open>data\<close>, from
  the method's \<open>except\<close> clause.
\<close>

theorem pool_normalization_counterexample:
  "fst (check_order_pool
          (serving_env (JObj [(''success'', JBool False), (''status'', JStr ''success''),
                              (''orders'', JList [order7])]))
          logged_in_service) = JObj [(''success'', JBool True), (''data'', JList [order7])]
   \<and> fst (check_order_pool (serving_env (JList [])) logged_in_service)
       = JObj [(''success'', JBool False), (''message'', JStr ''object has no attribute get''),
               (''data'', JList [])]"
  by (simp add: logged_in_service_def initialized_service_def initialize_def fresh_service_def
        new_api_service_def serving_env_def refusing_env_def ok_reply_def
        check_order_pool_def case_prod_beta auth_fetch_def fetch_with_logging_def fetch_data_def
        Let_def no_options_def dget_def no_get_def str_or_def default_base_url_def)

subsection \<open>The address and the stored credentials\<close>

lemma format_url_chopped:
  "format_url u = (if has_scheme (chopped u) then chopped u else ''https://'' @ chopped u)"
  by (simp add: format_url_def chopped_def has_scheme_def Let_def)

lemma format_url_scheme: "has_scheme (format_url u)"
  by (simp add: format_url_chopped) (simp add: has_scheme_def startswith_def)

lemma format_url_no_slash:
  "chopped u \<noteq> [] \<Longrightarrow> \<not> endswith_slash (chopped u) \<Longrightarrow> \<not> endswith_slash (format_url u)"
  by (simp add: format_url_chopped endswith_slash_def)

lemma change_base_url_result:
  assumes "py_strip u \<noteq> []"
  shows "(\<exists>e. kr_fault env (KrSet ''api_url'' (format_url u)) (keyring s) = Some e \<and>
              change_base_url env u s = (Inl e, s))
       \<or> (kr_fault env (KrSet ''api_url'' (format_url u)) (keyring s) = None \<and>
           change_base_url env u s =
             (Inr True, s\<lparr> keyring := (keyring s)(''api_url'' \<mapsto> format_url u),
                            base_url := Some (format_url u) \<rparr>))"
proof -
  have "u \<noteq> []" using assms by (auto simp: py_strip_def)
  then show ?thesis using assms
    by (auto simp: change_base_url_def keyring_set_def split: option.splits)
qed

lemma initialize_base_url:
  "base_url (initialize env p w (Some u) s) = Some (if u = [] then default_base_url else u)"
  "base_url (initialize env p w None s) = Some default_base_url"
  by (simp_all add: initialize_def str_or_def)

lemma ex_keyring: "\<exists>stored. s = s\<lparr> keyring := stored \<rparr>"
  by (rule exI [of _ "keyring s"]) simp

lemma save_credentials_keyring_only:
  "\<exists>stored. save_credentials env p w u s = s\<lparr> keyring := stored \<rparr>"
  by (auto simp: save_credentials_def keyring_set_def ex_keyring split: sum.splits option.splits)

lemma save_credentials_fields:
  "base_url (save_credentials env p w u s) = base_url s"
  "http_log (save_credentials env p w u s) = http_log s"
  "is_logged_in (save_credentials env p w u s) = is_logged_in s"
  using save_credentials_keyring_only [of env p w u s] by auto

lemma save_credentials_ok:
  "kr_fault env = (\<lambda>op stored. None) \<Longrightarrow> url \<noteq> [] \<Longrightarrow>
   save_credentials env p w (Some url) s =
     s\<lparr> keyring := (keyring s)(''phone'' \<mapsto> p, ''password'' \<mapsto> w, ''api_url'' \<mapsto> url) \<rparr>"
  by (simp add: save_credentials_def keyring_set_def str_or_def)

text \<open>
  \<open>login\<close> puts \<open>method\<close> in the options of its request, so the request is never made:
  every call ends in the \<open>except\<close> clause, after \<open>initialize\<close> has stored the credentials
  and the address the login settled on.
\<close>

lemma login_url_nonempty: "login_url_of u s \<noteq> []"
  by (auto simp: login_url_of_def default_base_url_def split: option.splits)

lemma login_result:
  "login env p w u s =
     (JObj [(''success'', JBool False),
            (''message'', JStr (''Blad polaczenia: '' @ str_exn duplicate_method))],
      initialize env p w (Some (login_url_of u s)) s)"
  unfolding login_def login_url_of_def [symmetric] Let_def
  by (simp add: fetch_with_logging_def)

lemma login_base_url:
  "base_url (snd (login env p w u s)) = Some (login_url_of u s)"
  using login_url_nonempty [of u s]
  by (simp add: login_result initialize_def str_or_def)

lemma login_url_cases:
  "v \<noteq> [] \<Longrightarrow> login_url_of (Some v) s = v"
  "base_url s = Some c \<Longrightarrow> c \<noteq> [] \<Longrightarrow> login_url_of None s = c"
  "base_url s = Some c \<Longrightarrow> c \<noteq> [] \<Longrightarrow> login_url_of (Some []) s = c"
  "\<not> str_truthy (base_url s) \<Longrightarrow> login_url_of None s = default_base_url"
  "\<not> str_truthy (base_url s) \<Longrightarrow> login_url_of (Some []) s = default_base_url"
  by (cases "base_url s"; simp add: login_url_of_def str_or_def)+

lemma logout_keeps_url:
  assumes "kr_fault env = (\<lambda>op stored. None)"
  shows "keyring (snd (logout env s)) = (keyring s)(''phone'' := None, ''password'' := None)"
  using assms
  by (simp add: logout_def Let_def keyring_delete_def reset_def auth_fetch_log)

lemma load_saved_faults:
  "kr_fault env (KrGet ''phone'') (keyring s) = Some e \<Longrightarrow> load_saved_credentials env s = (None, s)"
  "kr_fault env (KrGet ''password'') (keyring s) = Some e \<Longrightarrow> load_saved_credentials env s = (None, s)"
  "kr_fault env (KrGet ''api_url'') (keyring s) = Some e \<Longrightarrow> load_saved_api_url env s = (None, s)"
  by (simp_all add: load_saved_credentials_def load_saved_api_url_def keyring_get_def
        split: option.splits)

lemma save_credentials_fault:
  "kr_fault env (KrSet ''phone'' p) (keyring s) = Some e \<Longrightarrow> save_credentials env p w u s = s"
  by (simp add: save_credentials_def keyring_set_def)

lemma check_connection_shape:
  "fst (check_connection env s) =
     (if fst (check_api_status env s)
      then JObj [(''success'', JBool True), (''status'', JStr ''connected'')]
      else JObj [(''success'', JBool False), (''status'', JStr ''disconnected'')])"
  by (simp add: check_connection_def case_prod_beta)

lemma check_api_status_shape:
  "fst (check_api_status env s) =
     (case fst (make_request env ''GET'' ''/api/health'' None None (Some 1) s) of
        Inr body \<Rightarrow> True
      | Inl e \<Rightarrow> False)"
  by (simp add: check_api_status_def split: prod.splits sum.splits)

subsection \<open>The shape of the results\<close>

lemma auth_fetch_from_server: "from_server env s (fst (auth_fetch env endpoint options s))"
  by (cases "is_logged_in s"; cases "fetch_data (net env (length (http_log s)))")
     (auto simp: from_server_def not_logged_in_def auth_fetch_def fetch_with_logging_def Let_def failure_def
        split: option.splits)

lemma normalized_failure: "normalized env s (failure e)"
  by (simp add: normalized_def failure_def)

lemma normalized_success: "map_of kvs ''success'' = Some (JBool True) \<Longrightarrow> normalized env s (JObj kvs)"
  by (simp add: normalized_def)

lemma normalized_passed_message:
  assumes "from_server env s (JObj kvs)"
  shows "normalized env s (JObj [(''success'', JBool False),
            (''message'', (case map_of kvs ''message'' of None \<Rightarrow> JStr d | Some m \<Rightarrow> m))])"
  using assms
  by (auto simp: from_server_def not_logged_in_def normalized_def failure_def server_message_def
        split: option.splits)

lemma normalized_action:
  assumes "from_server env s response" "map_of ok ''success'' = Some (JBool True)"
  shows "normalized env s
           (case response of
              JObj kvs \<Rightarrow>
                if truthy (dget kvs ''success'') then JObj ok
                else JObj [(''success'', JBool False),
                           (''message'', (case map_of kvs ''message'' of
                                            None \<Rightarrow> JStr d | Some m \<Rightarrow> m))]
            | _ \<Rightarrow> failure no_get)"
  using assms normalized_passed_message normalized_success normalized_failure
  by (cases response) simp_all

lemma normalized_actions:
  "normalized env s (fst (accept_order env order_id s))"
  "normalized env s (fst (start_order env order_id s))"
  "normalized env s (fst (complete_order env order_id s))"
  "normalized env s (fst (cancel_order env order_id reason s))"
  "normalized env s (fst (update_location env latitude longitude s))"
  "normalized env s (fst (update_driver_status env status s))"
  by (simp_all add: endpoint_defs case_prod_beta normalized_action auth_fetch_from_server)

lemma normalized_fetches:
  "normalized env s (fst (check_order_pool env s))"
  "normalized env s (fst (get_current_orders env s))"
  "normalized env s (fst (get_driver_profile env s))"
  "normalized env s (fst (get_profile env s))"
  "normalized env s (fst (get_order_details env order_id s))"
  "normalized env s (fst (get_order_storage_details env order_id s))"
  by (simp_all add: endpoint_defs get_profile_def case_prod_beta normalized_def failure_def no_get_def
        split: json.splits)

lemma normalized_cong:
  assumes "http_log s1 = http_log s"
  shows "normalized env s1 result = normalized env s result"
proof -
  have "server_message env s1 = server_message env s"
    using assms by (simp add: server_message_def)
  then show ?thesis by (simp add: normalized_def split: json.splits option.splits)
qed

lemma normalized_login: "normalized env s' (fst (login env p w u s))"
  by (simp add: login_result normalized_def)

lemma normalized_auto_login: "normalized env s (fst (auto_login env s))"
  by (cases "load_saved_credentials env s")
     (auto simp: auto_login_def login_result normalized_def split: option.splits)

lemma normalized_logout: "normalized env s (fst (logout env s))"
  by (simp add: logout_def Let_def normalized_def)

lemma generic_shape:
  "case fst (make_request env ''GET'' endpoint None params None s) of
     Inr body \<Rightarrow> fst (get env endpoint params s) = body
   | Inl e \<Rightarrow> error_shaped (fst (get env endpoint params s))"
  "case fst (make_request env ''POST'' endpoint data None None s) of
     Inr body \<Rightarrow> fst (post env endpoint data s) = body
   | Inl e \<Rightarrow> error_shaped (fst (post env endpoint data s))"
  "case fst (make_request env ''PUT'' endpoint data None None s) of
     Inr body \<Rightarrow> fst (put env endpoint data s) = body
   | Inl e \<Rightarrow> error_shaped (fst (put env endpoint data s))"
  "case fst (make_request env ''DELETE'' endpoint None None None s) of
     Inr body \<Rightarrow> fst (delete env endpoint s) = body
   | Inl e \<Rightarrow> error_shaped (fst (delete env endpoint s))"
  by (simp_all add: get_def post_def put_def delete_def handle_error_def error_shaped_def
        split: prod.splits sum.splits)

lemma change_base_url_blank:
  "py_strip u = [] \<Longrightarrow> change_base_url env u s = (Inl (ValueError ''Nowy adres URL nie moze byc pusty''), s)"
  by (simp add: change_base_url_def)

lemma synchronous_operations:
  "keyring (initialize env p w u s) = keyring s \<and> http_log (initialize env p w u s) = http_log s"
  "keyring (reset s) = keyring s \<and> http_log (reset s) = http_log s"
  by (simp_all add: initialize_def reset_def)

subsection \<open>Claim C5: methods called before login\<close>

text \<open>
  C5, as the code has it. Called while \<open>is_logged_in\<close> is false, every authenticated method
  returns with the client unchanged, so no request is handed to the HTTP library.
  \<open>accept_order\<close>, \<open>start_order\<close>, \<open>complete_order\<close>, \<open>cancel_order\<close>, \<open>update_location\<close> and
  \<open>update_driver_status\<close> return \<open>success\<close> false with the message "Nie zalogowano";
  \<open>check_order_pool\<close> and \<open>get_current_orders\<close> return \<open>{success: true, data: []}\<close>, and
  \<open>get_driver_profile\<close> returns \<open>success\<close> true with its fallback profile: their last branch
  takes the refusal of \<open>_auth_fetch\<close> for a response without orders or without a profile.
\<close>

theorem auth_gating:
  assumes "\<not> is_logged_in s"
  shows "accept_order env order_id s = (not_logged_in, s)
    \<and> start_order env order_id s = (not_logged_in, s)
    \<and> complete_order env order_id s = (not_logged_in, s)
    \<and> cancel_order env order_id reason s = (not_logged_in, s)
    \<and> update_location env latitude longitude s = (not_logged_in, s)
    \<and> update_driver_status env status s = (not_logged_in, s)
    \<and> check_order_pool env s = (pool_of [], s)
    \<and> get_current_orders env s = (pool_of [], s)
    \<and> get_driver_profile env s = (fallback_profile s, s)"
  by (simp add: refused_before_login [OF assms])

theorem auth_gating_witness:
  "\<not> is_logged_in fresh_service
   \<and> accept_order refusing_env 7 fresh_service = (not_logged_in, fresh_service)
   \<and> update_location refusing_env (5223 / 100) (2101 / 100) fresh_service = (not_logged_in, fresh_service)
   \<and> check_order_pool refusing_env fresh_service = (pool_of [], fresh_service)
   \<and> http_log fresh_service = []"
proof -
  have h: "\<not> is_logged_in fresh_service"
    by (simp add: fresh_service_def new_api_service_def)
  from auth_gating [OF h, where env = refusing_env and order_id = 7
      and latitude = "5223 / 100" and longitude = "2101 / 100"] h
  show ?thesis by (simp add: fresh_service_def new_api_service_def)
qed

text \<open>
  C5 as stated, "returns a result with success false", fails for the order pool and for the
  current orders: on a client that never logged in both return \<open>success\<close> true.
\<close>

theorem auth_gating_counterexample:
  "\<not> is_logged_in fresh_service
   \<and> fst (check_order_pool refusing_env fresh_service)
       = JObj [(''success'', JBool True), (''data'', JList [])]
   \<and> fst (get_current_orders refusing_env fresh_service)
       = JObj [(''success'', JBool True), (''data'', JList [])]"
  by (simp add: fresh_service_def new_api_service_def check_order_pool_def
        get_current_orders_def auth_fetch_def dget_def)

subsection \<open>Claim C10: one request, no retry\<close>

text \<open>
  C10. Every endpoint method routed through the authenticated fetch path
  (\<open>check_order_pool\<close>, \<open>get_current_orders\<close>, accept, start, complete and cancel order,
  \<open>update_location\<close>, \<open>update_driver_status\<close>, \<open>get_driver_profile\<close>) issues at most one
  HTTP request per call regardless of outcome: these methods bypass the retrying transport
  entirely, so a transport failure is reported in the returned result without any retry
  attempt.

  As the code has it. Each of the nine methods hands at most one request to the HTTP
  library per call, whatever the outcome, and never sleeps: the retrying transport is not
  involved. When the library raises at the request of a logged-in client's
  \<open>check_order_pool\<close>, \<open>get_current_orders\<close> or \<open>get_driver_profile\<close>, that one request
  is the only one, and the failure is not reported: the first two return
  \<open>{success: true, data: []}\<close> and the third its fallback profile.
\<close>

theorem single_request:
  "(length (http_log (snd (accept_order env order_id s))) \<le> length (http_log s) + 1
      \<and> sleeps (snd (accept_order env order_id s)) = sleeps s)
   \<and> (length (http_log (snd (start_order env order_id s))) \<le> length (http_log s) + 1
      \<and> sleeps (snd (start_order env order_id s)) = sleeps s)
   \<and> (length (http_log (snd (complete_order env order_id s))) \<le> length (http_log s) + 1
      \<and> sleeps (snd (complete_order env order_id s)) = sleeps s)
   \<and> (length (http_log (snd (cancel_order env order_id reason s))) \<le> length (http_log s) + 1
      \<and> sleeps (snd (cancel_order env order_id reason s)) = sleeps s)
   \<and> (length (http_log (snd (update_location env latitude longitude s))) \<le> length (http_log s) + 1
      \<and> sleeps (snd (update_location env latitude longitude s)) = sleeps s)
   \<and> (length (http_log (snd (update_driver_status env status s))) \<le> length (http_log s) + 1
      \<and> sleeps (snd (update_driver_status env status s)) = sleeps s)
   \<and> (length (http_log (snd (check_order_pool env s))) \<le> length (http_log s) + 1
      \<and> sleeps (snd (check_order_pool env s)) = sleeps s)
   \<and> (length (http_log (snd (get_current_orders env s))) \<le> length (http_log s) + 1
      \<and> sleeps (snd (get_current_orders env s)) = sleeps s)
   \<and> (length (http_log (snd (get_driver_profile env s))) \<le> length (http_log s) + 1
      \<and> sleeps (snd (get_driver_profile env s)) = sleeps s)
   \<and> (is_logged_in s \<and> net env (length (http_log s)) = Raises e \<longrightarrow>
        fst (check_order_pool env s) = pool_of []
        \<and> fst (get_current_orders env s) = pool_of []
        \<and> fst (get_driver_profile env s) = fallback_profile s
        \<and> length (http_log (snd (check_order_pool env s))) = length (http_log s) + 1
        \<and> length (http_log (snd (get_current_orders env s))) = length (http_log s) + 1
        \<and> length (http_log (snd (get_driver_profile env s))) = length (http_log s) + 1)"
proof -
  have "is_logged_in s \<and> net env (length (http_log s)) = Raises e \<longrightarrow>
        fst (check_order_pool env s) = pool_of []
        \<and> fst (get_current_orders env s) = pool_of []
        \<and> fst (get_driver_profile env s) = fallback_profile s
        \<and> length (http_log (snd (check_order_pool env s))) = length (http_log s) + 1
        \<and> length (http_log (snd (get_current_orders env s))) = length (http_log s) + 1
        \<and> length (http_log (snd (get_driver_profile env s))) = length (http_log s) + 1"
    using transport_failure_each [of s env e] by blast
  then show ?thesis
    by (simp only: one_request_each simp_thms)
qed

theorem single_request_witness:
  "is_logged_in logged_in_service
   \<and> net refusing_env (length (http_log logged_in_service)) = Raises (ClientError ''Connection refused'')
   \<and> fst (get_current_orders refusing_env logged_in_service) = pool_of []
   \<and> fst (get_driver_profile refusing_env logged_in_service) = fallback_profile logged_in_service
   \<and> length (http_log (snd (get_current_orders refusing_env logged_in_service))) = 1
   \<and> length (http_log (snd (get_driver_profile refusing_env logged_in_service))) = 1
   \<and> sleeps (snd (get_current_orders refusing_env logged_in_service)) = []
   \<and> length (http_log (snd (accept_order refusing_env 7 logged_in_service))) \<le> 1"
proof -
  have h: "is_logged_in logged_in_service"
    "net refusing_env (length (http_log logged_in_service)) = Raises (ClientError ''Connection refused'')"
    by (simp_all add: logged_in_service_def refusing_env_def)
  have st: "http_log logged_in_service = []" "sleeps logged_in_service = []"
    by (simp_all add: logged_in_service_def initialized_service_def initialize_def
          fresh_service_def new_api_service_def)
  from single_request [where env = refusing_env and s = logged_in_service and order_id = 7
      and e = "ClientError ''Connection refused''"] h
  show ?thesis by (simp add: st)
qed

text \<open>
  C10 as stated, "a transport failure is reported in the returned result", fails for the
  order pool: with a refused connection the logged-in client returns the result of an empty
  pool.
\<close>

theorem single_request_counterexample:
  "is_logged_in logged_in_service
   \<and> net refusing_env (length (http_log logged_in_service)) = Raises (ClientError ''Connection refused'')
   \<and> fst (check_order_pool refusing_env logged_in_service)
       = JObj [(''success'', JBool True), (''data'', JList [])]"
  by (simp add: logged_in_service_def initialized_service_def initialize_def fresh_service_def
        new_api_service_def refusing_env_def str_or_def default_base_url_def
        check_order_pool_def case_prod_beta auth_fetch_def fetch_with_logging_def fetch_data_def
        Let_def no_options_def dget_def)

subsection \<open>Claim C2: what the public operations return\<close>

text \<open>
  C2. For every public operation of the API client and every outcome of its collaborators
  (including ones that raise), no exception escapes the method: the call returns a normalized
  result containing a \<open>success\<close> boolean and, on failure, a human-readable \<open>message\<close> string.

  As the code has it, for every outcome of the HTTP library and of the keyring. No
  exception leaves any public operation but \<open>change_base_url\<close>; not all of them return
  the normalized result. \<open>login\<close>, \<open>auto_login\<close>, \<open>logout\<close>, \<open>get_driver_profile\<close>,
  \<open>get_profile\<close>, \<open>check_order_pool\<close>, \<open>get_current_orders\<close>, \<open>accept_order\<close>,
  \<open>start_order\<close>, \<open>complete_order\<close>, \<open>cancel_order\<close>, \<open>get_order_details\<close>,
  \<open>get_order_storage_details\<close>, \<open>update_driver_status\<close> and \<open>update_location\<close> return a
  dict whose \<open>success\<close> is a boolean and which, when that is false, has a \<open>message\<close>: a
  string, or the \<open>message\<close> entry of the server's body passed through as it came.
  \<open>get\<close>, \<open>post\<close>, \<open>put\<close> and \<open>delete\<close> return the server's body as it is when the
  transport succeeds and otherwise the dict of \<open>_handle_error\<close>, with \<open>success\<close> false and
  the text under \<open>error\<close>, not \<open>message\<close>. \<open>check_connection\<close> returns
  \<open>{success: true, status: "connected"}\<close> or \<open>{success: false, status: "disconnected"}\<close>,
  without a message, and \<open>check_api_status\<close> a bare boolean, true when the health request
  got its answer. \<open>load_saved_credentials\<close> and \<open>load_saved_api_url\<close> return \<open>None\<close> and
  leave the client as it was when the keyring raises; \<open>save_credentials\<close> returns nothing,
  touches the keyring only, and leaves even that as it was when its first write raises;
  \<open>initialize\<close> and \<open>reset\<close> call no collaborator, and \<open>get_base_url\<close> returns an
  address, the default one when the client has none. \<open>change_base_url\<close> is outside the
  policy: a blank address leaves it as a \<open>ValueError\<close> and a failure of the keyring as that
  exception, the client unchanged; otherwise it returns the bare \<open>True\<close>.
\<close>

theorem endpoint_results_normalized:
  "normalized env s (fst (login env phone_arg password_arg base_url_arg s))
   \<and> normalized env s (fst (auto_login env s))
   \<and> normalized env s (fst (logout env s))
   \<and> normalized env s (fst (get_driver_profile env s))
   \<and> normalized env s (fst (get_profile env s))
   \<and> normalized env s (fst (check_order_pool env s))
   \<and> normalized env s (fst (get_current_orders env s))
   \<and> normalized env s (fst (accept_order env order_id s))
   \<and> normalized env s (fst (start_order env order_id s))
   \<and> normalized env s (fst (complete_order env order_id s))
   \<and> normalized env s (fst (cancel_order env order_id reason s))
   \<and> normalized env s (fst (get_order_details env order_id s))
   \<and> normalized env s (fst (get_order_storage_details env order_id s))
   \<and> normalized env s (fst (update_driver_status env status s))
   \<and> normalized env s (fst (update_location env latitude longitude s))
   \<and> (case fst (make_request env ''GET'' endpoint None params None s) of
         Inr body \<Rightarrow> fst (get env endpoint params s) = body
       | Inl e \<Rightarrow> error_shaped (fst (get env endpoint params s)))
   \<and> (case fst (make_request env ''POST'' endpoint data None None s) of
         Inr body \<Rightarrow> fst (post env endpoint data s) = body
       | Inl e \<Rightarrow> error_shaped (fst (post env endpoint data s)))
   \<and> (case fst (make_request env ''PUT'' endpoint data None None s) of
         Inr body \<Rightarrow> fst (put env endpoint data s) = body
       | Inl e \<Rightarrow> error_shaped (fst (put env endpoint data s)))
   \<and> (case fst (make_request env ''DELETE'' endpoint None None None s) of
         Inr body \<Rightarrow> fst (delete env endpoint s) = body
       | Inl e \<Rightarrow> error_shaped (fst (delete env endpoint s)))
   \<and> fst (check_connection env s) =
        (if fst (check_api_status env s)
         then JObj [(''success'', JBool True), (''status'', JStr ''connected'')]
         else JObj [(''success'', JBool False), (''status'', JStr ''disconnected'')])
   \<and> fst (check_api_status env s) =
        (case fst (make_request env ''GET'' ''/api/health'' None None (Some 1) s) of
           Inr body \<Rightarrow> True
         | Inl e \<Rightarrow> False)
   \<and> (kr_fault env (KrGet ''phone'') (keyring s) = Some e
        \<or> kr_fault env (KrGet ''password'') (keyring s) = Some e \<longrightarrow>
         load_saved_credentials env s = (None, s))
   \<and> (kr_fault env (KrGet ''api_url'') (keyring s) = Some e \<longrightarrow>
         load_saved_api_url env s = (None, s))
   \<and> (\<exists>stored. save_credentials env phone_arg password_arg base_url_arg s
                  = s\<lparr> keyring := stored \<rparr>)
   \<and> (kr_fault env (KrSet ''phone'' phone_arg) (keyring s) = Some e \<longrightarrow>
         save_credentials env phone_arg password_arg base_url_arg s = s)
   \<and> (keyring (initialize env phone_arg password_arg base_url_arg s) = keyring s
       \<and> http_log (initialize env phone_arg password_arg base_url_arg s) = http_log s)
   \<and> (keyring (reset s) = keyring s \<and> http_log (reset s) = http_log s)
   \<and> (\<not> str_truthy (base_url s) \<longrightarrow> get_base_url s = default_base_url)
   \<and> (py_strip new_base_url = [] \<longrightarrow>
         change_base_url env new_base_url s =
           (Inl (ValueError ''Nowy adres URL nie moze byc pusty''), s))
   \<and> (py_strip new_base_url \<noteq> [] \<and>
       kr_fault env (KrSet ''api_url'' (format_url new_base_url)) (keyring s) = Some e \<longrightarrow>
         change_base_url env new_base_url s = (Inl e, s))
   \<and> (py_strip new_base_url \<noteq> [] \<and>
       kr_fault env (KrSet ''api_url'' (format_url new_base_url)) (keyring s) = None \<longrightarrow>
         fst (change_base_url env new_base_url s) = Inr True)"
proof -
  have raised: "py_strip new_base_url \<noteq> [] \<and>
       kr_fault env (KrSet ''api_url'' (format_url new_base_url)) (keyring s) = Some e \<longrightarrow>
         change_base_url env new_base_url s = (Inl e, s)"
    using change_base_url_result [of new_base_url env s] by auto
  have changed: "py_strip new_base_url \<noteq> [] \<and>
       kr_fault env (KrSet ''api_url'' (format_url new_base_url)) (keyring s) = None \<longrightarrow>
         fst (change_base_url env new_base_url s) = Inr True"
    using change_base_url_result [of new_base_url env s] by auto
  have blank: "py_strip new_base_url = [] \<longrightarrow>
         change_base_url env new_base_url s =
           (Inl (ValueError ''Nowy adres URL nie moze byc pusty''), s)"
    by (simp add: change_base_url_blank)
  have loaded: "kr_fault env (KrGet ''phone'') (keyring s) = Some e
        \<or> kr_fault env (KrGet ''password'') (keyring s) = Some e \<longrightarrow>
         load_saved_credentials env s = (None, s)"
    using load_saved_faults(1,2) [of env s e] by blast
  have url: "kr_fault env (KrGet ''api_url'') (keyring s) = Some e \<longrightarrow>
         load_saved_api_url env s = (None, s)"
    using load_saved_faults(3) [of env s e] by blast
  have saved: "kr_fault env (KrSet ''phone'' phone_arg) (keyring s) = Some e \<longrightarrow>
         save_credentials env phone_arg password_arg base_url_arg s = s"
    using save_credentials_fault [of env phone_arg s e password_arg base_url_arg] by blast
  have conn: "fst (check_connection env s) =
        (if fst (check_api_status env s)
         then JObj [(''success'', JBool True), (''status'', JStr ''connected'')]
         else JObj [(''success'', JBool False), (''status'', JStr ''disconnected'')])"
    by (rule check_connection_shape)
  have health: "fst (check_api_status env s) =
        (case fst (make_request env ''GET'' ''/api/health'' None None (Some 1) s) of
           Inr body \<Rightarrow> True
         | Inl e \<Rightarrow> False)"
    by (rule check_api_status_shape)
  have based: "\<not> str_truthy (base_url s) \<longrightarrow> get_base_url s = default_base_url"
    by (cases "base_url s") (simp_all add: get_base_url_def)
  note shapes = normalized_login normalized_auto_login normalized_logout normalized_fetches
    normalized_actions generic_shape
  show ?thesis
    by (intro conjI shapes conn health loaded url saved raised changed blank based
          save_credentials_keyring_only synchronous_operations [THEN conjunct1]
          synchronous_operations [THEN conjunct2])
qed

theorem endpoint_results_normalized_witness:
  "fst (accept_order refusing_env 7 logged_in_service) = failure duplicate_method
   \<and> normalized refusing_env logged_in_service (fst (accept_order refusing_env 7 logged_in_service))
   \<and> fst (get_order_details refusing_env 7 logged_in_service)
       = JObj [(''success'', JBool False), (''message'', JStr ''Zlecenie nie znalezione'')]
   \<and> normalized refusing_env logged_in_service (fst (get_order_details refusing_env 7 logged_in_service))
   \<and> fst (make_request refusing_env ''GET'' ''/api/health'' None None (Some 0) fresh_service)
       = Inl (APIConnectionError ''Failed after 1 attempts: Connection refused'')
   \<and> error_shaped (fst (get refusing_env ''/api/health'' None (fresh_service\<lparr> max_retries := 0 \<rparr>)))
   \<and> fst (check_api_status refusing_env fresh_service) = False
   \<and> fst (check_connection refusing_env fresh_service)
       = JObj [(''success'', JBool False), (''status'', JStr ''disconnected'')]
   \<and> get_base_url (reset fresh_service) = default_base_url
   \<and> py_strip ''  '' = []
   \<and> change_base_url refusing_env ''  '' fresh_service
       = (Inl (ValueError ''Nowy adres URL nie moze byc pusty''), fresh_service)
   \<and> fst (change_base_url refusing_env ''example.com'' fresh_service) = Inr True"
proof -
  note main = endpoint_results_normalized [where env = refusing_env and order_id = 7]
  have li: "is_logged_in logged_in_service" by (simp add: logged_in_service_def)
  have a: "fst (accept_order refusing_env 7 logged_in_service) = failure duplicate_method"
    by (rule posting_methods_send_nothing(1) [OF li])
  have b: "normalized refusing_env logged_in_service (fst (accept_order refusing_env 7 logged_in_service))"
    using main [where s = logged_in_service] by blast
  have a': "fst (get_order_details refusing_env 7 logged_in_service)
       = JObj [(''success'', JBool False), (''message'', JStr ''Zlecenie nie znalezione'')]"
    using li
    by (simp add: get_order_details_def case_prod_beta auth_fetch_logged_in no_options_def
          refusing_env_def fetch_data_def failure_def dget_def)
  have b': "normalized refusing_env logged_in_service (fst (get_order_details refusing_env 7 logged_in_service))"
    using main [where s = logged_in_service] by blast
  have c: "fst (make_request refusing_env ''GET'' ''/api/health'' None None (Some 0) fresh_service)
       = Inl (APIConnectionError ''Failed after 1 attempts: Connection refused'')"
    by (simp add: make_request_def attempt_result_def refusing_env_def fresh_service_def
          new_api_service_def str_int_def request_headers_def)
  have c': "\<exists>e. fst (make_request refusing_env ''GET'' ''/api/health'' None None None
                 (fresh_service\<lparr> max_retries := 0 \<rparr>)) = Inl e"
    by (simp add: make_request_def attempt_result_def refusing_env_def fresh_service_def
          new_api_service_def str_int_def request_headers_def)
  have d: "error_shaped (fst (get refusing_env ''/api/health'' None (fresh_service\<lparr> max_retries := 0 \<rparr>)))"
    using main [where s = "fresh_service\<lparr> max_retries := 0 \<rparr>" and endpoint = "''/api/health''"
        and params = None] c'
    by auto
  have two: "[0 ..< 2] = [0, Suc 0]"
    by (simp add: numeral_2_eq_2)
  have h': "\<exists>e. fst (make_request refusing_env ''GET'' ''/api/health'' None None (Some 1)
                 fresh_service) = Inl e"
    by (simp add: make_request_def attempt_result_def refusing_env_def fresh_service_def
          new_api_service_def str_int_def request_headers_def two)
  have h: "fst (check_api_status refusing_env fresh_service) = False"
    using main [where s = fresh_service] h' by auto
  have k: "fst (check_connection refusing_env fresh_service)
       = JObj [(''success'', JBool False), (''status'', JStr ''disconnected'')]"
    using main [where s = fresh_service] h by simp
  have e: "py_strip ''  '' = []" by (simp add: py_strip_def is_space_def)
  have f: "change_base_url refusing_env ''  '' fresh_service
       = (Inl (ValueError ''Nowy adres URL nie moze byc pusty''), fresh_service)"
    using main [where s = fresh_service and new_base_url = "''  ''"] e by blast
  have g': "py_strip ''example.com'' \<noteq> []"
    "kr_fault refusing_env (KrSet ''api_url'' (format_url ''example.com'')) (keyring fresh_service) = None"
    by (simp_all add: py_strip_def is_space_def refusing_env_def)
  have g: "fst (change_base_url refusing_env ''example.com'' fresh_service) = Inr True"
    using main [where s = fresh_service and new_base_url = "''example.com''"] g' by blast
  have m: "get_base_url (reset fresh_service) = default_base_url"
    using main [where s = "reset fresh_service"] by (simp add: reset_def)
  show ?thesis using a b a' b' c d h k m e f g by blast
qed

text \<open>
  C2 as stated, "no exception escapes the method", fails for \<open>change_base_url\<close> on the empty
  address.
\<close>

theorem change_base_url_raises:
  "change_base_url refusing_env [] fresh_service
     = (Inl (ValueError ''Nowy adres URL nie moze byc pusty''), fresh_service)"
  by (simp add: change_base_url_def)

subsection \<open>Claim C7: the base address\<close>

text \<open>
  C7. The session's \<open>base_url\<close> is always normalized: after any operation that sets it
  (\<open>changeBaseUrl\<close>, \<open>initialize\<close>, \<open>login\<close>) it has no trailing slash and has an explicit
  scheme, with \<open>https://\<close> prepended if the input lacked one when set via \<open>changeBaseUrl\<close>.

  As the code has it. When \<open>change_base_url\<close> is given an address that is not blank and
  the keyring takes it, it returns \<open>True\<close> and stores, in the keyring and in \<open>base_url\<close>, the
  stripped address less one trailing slash, with \<open>https://\<close> put in front when that does not
  start with \<open>http://\<close> or \<open>https://\<close>: the result always has a scheme, and it has no trailing
  slash when the stripped address less its one slash is not empty and does not end in a
  slash itself. \<open>initialize\<close> and \<open>login\<close> do not normalize. \<open>initialize\<close> stores the
  address it is given as it is, and the default address when it is given none or an empty
  one. \<open>login\<close> stores the address it is given as it is; given none or an empty one it
  keeps the client's current \<open>base_url\<close> as it is, and stores the default address only
  when that is unset or empty too.
\<close>

theorem base_url_after_change:
  "(py_strip u \<noteq> [] \<and> kr_fault env (KrSet ''api_url'' (format_url u)) (keyring s) = None \<longrightarrow>
      change_base_url env u s =
        (Inr True, s\<lparr> keyring := (keyring s)(''api_url'' \<mapsto> format_url u),
                       base_url := Some (format_url u) \<rparr>)
      \<and> has_scheme (format_url u)
      \<and> format_url u = (if has_scheme (chopped u) then chopped u else ''https://'' @ chopped u)
      \<and> (chopped u \<noteq> [] \<and> \<not> endswith_slash (chopped u) \<longrightarrow> \<not> endswith_slash (format_url u)))
   \<and> base_url (initialize env p w (Some u) s) = Some (if u = [] then default_base_url else u)
   \<and> base_url (initialize env p w None s) = Some default_base_url
   \<and> (u \<noteq> [] \<longrightarrow> base_url (snd (login env p w (Some u) s)) = Some u)
   \<and> (base_url s = Some c \<and> c \<noteq> [] \<longrightarrow>
        base_url (snd (login env p w None s)) = Some c
        \<and> base_url (snd (login env p w (Some []) s)) = Some c)
   \<and> (\<not> str_truthy (base_url s) \<longrightarrow>
        base_url (snd (login env p w None s)) = Some default_base_url
        \<and> base_url (snd (login env p w (Some []) s)) = Some default_base_url)"
proof -
  have changed:
    "py_strip u \<noteq> [] \<and> kr_fault env (KrSet ''api_url'' (format_url u)) (keyring s) = None \<longrightarrow>
      change_base_url env u s =
        (Inr True, s\<lparr> keyring := (keyring s)(''api_url'' \<mapsto> format_url u),
                       base_url := Some (format_url u) \<rparr>)
      \<and> has_scheme (format_url u)
      \<and> format_url u = (if has_scheme (chopped u) then chopped u else ''https://'' @ chopped u)
      \<and> (chopped u \<noteq> [] \<and> \<not> endswith_slash (chopped u) \<longrightarrow> \<not> endswith_slash (format_url u))"
    using change_base_url_result [of u env s] format_url_scheme [of u] format_url_chopped [of u]
      format_url_no_slash [of u]
    by auto
  have given: "u \<noteq> [] \<longrightarrow> base_url (snd (login env p w (Some u) s)) = Some u"
    by (simp add: login_base_url login_url_cases)
  have kept: "base_url s = Some c \<and> c \<noteq> [] \<longrightarrow>
        base_url (snd (login env p w None s)) = Some c
        \<and> base_url (snd (login env p w (Some []) s)) = Some c"
    by (simp add: login_base_url login_url_cases)
  have default: "\<not> str_truthy (base_url s) \<longrightarrow>
        base_url (snd (login env p w None s)) = Some default_base_url
        \<and> base_url (snd (login env p w (Some []) s)) = Some default_base_url"
    by (simp add: login_base_url login_url_cases)
  show ?thesis
    by (intro conjI changed given kept default initialize_base_url)
qed

theorem base_url_after_change_witness:
  "py_strip '' example.com/ '' = ''example.com/''
   \<and> chopped '' example.com/ '' = ''example.com''
   \<and> change_base_url refusing_env '' example.com/ '' fresh_service =
       (Inr True, fresh_service\<lparr> keyring := (keyring fresh_service)(''api_url'' \<mapsto> ''https://example.com''),
                                  base_url := Some ''https://example.com'' \<rparr>)
   \<and> \<not> endswith_slash ''https://example.com''
   \<and> base_url (snd (login refusing_env ''p'' ''w'' (Some ''http://10.0.0.2:5000'') fresh_service))
       = Some ''http://10.0.0.2:5000''
   \<and> base_url (snd (login refusing_env ''p'' ''w'' None (fresh_service\<lparr> base_url := Some ''x.com/'' \<rparr>)))
       = Some ''x.com/''
   \<and> base_url (snd (login refusing_env ''p'' ''w'' None (fresh_service\<lparr> base_url := None \<rparr>)))
       = Some default_base_url"
proof -
  have st: "py_strip '' example.com/ '' = ''example.com/''"
    by (simp add: py_strip_def is_space_def)
  have ch: "chopped '' example.com/ '' = ''example.com''"
    by (simp add: chopped_def st endswith_slash_def)
  have sc: "\<not> has_scheme ''example.com''"
    by (simp add: has_scheme_def startswith_def)
  have ok: "kr_fault refusing_env (KrSet ''api_url'' (format_url '' example.com/ '')) (keyring fresh_service) = None"
    by (simp add: refusing_env_def)
  have ne: "py_strip '' example.com/ '' \<noteq> []" "''http://10.0.0.2:5000'' \<noteq> []"
    "chopped '' example.com/ '' \<noteq> []" "\<not> endswith_slash (chopped '' example.com/ '')"
    by (simp_all add: st ch endswith_slash_def)
  note main = base_url_after_change [where env = refusing_env and p = "''p''" and w = "''w''"]
  from main [where u = "'' example.com/ ''" and s = fresh_service and c = "[]", THEN conjunct1]
    ok ne ch sc
  have a: "change_base_url refusing_env '' example.com/ '' fresh_service =
       (Inr True, fresh_service\<lparr> keyring := (keyring fresh_service)(''api_url'' \<mapsto> ''https://example.com''),
                                  base_url := Some ''https://example.com'' \<rparr>)
     \<and> \<not> endswith_slash ''https://example.com''"
    by (elim impE conjE) simp_all
  from main [where u = "''http://10.0.0.2:5000''" and s = fresh_service and c = "[]"] ne
  have b: "base_url (snd (login refusing_env ''p'' ''w'' (Some ''http://10.0.0.2:5000'') fresh_service))
       = Some ''http://10.0.0.2:5000''"
    by simp
  from main [where s = "fresh_service\<lparr> base_url := Some ''x.com/'' \<rparr>" and c = "''x.com/''"
      and u = "[]"]
  have c: "base_url (snd (login refusing_env ''p'' ''w'' None (fresh_service\<lparr> base_url := Some ''x.com/'' \<rparr>)))
       = Some ''x.com/''"
    by simp
  from main [where s = "fresh_service\<lparr> base_url := None \<rparr>" and c = "[]" and u = "[]"]
  have d: "base_url (snd (login refusing_env ''p'' ''w'' None (fresh_service\<lparr> base_url := None \<rparr>)))
       = Some default_base_url"
    by simp
  show ?thesis using st ch a b c d by blast
qed

text \<open>
  C7 as stated fails for \<open>initialize\<close>: given an address with a trailing slash and no
  scheme, it stores just that.
\<close>

theorem initialize_keeps_url_verbatim:
  "base_url (initialize refusing_env ''p'' ''w'' (Some ''example.com/'') fresh_service)
     = Some ''example.com/''
   \<and> endswith_slash ''example.com/'' \<and> \<not> has_scheme ''example.com/''"
  by (simp add: initialize_def str_or_def endswith_slash_def has_scheme_def startswith_def)

subsection \<open>Claim C8: the stored credentials\<close>

text \<open>
  C8. Exactly three credential-store entries, phone, password and the last-used API base
  URL, are written on successful login, and all of them are deleted on logout.

  As the code has it. With a keyring that does not fail, \<open>save_credentials\<close>, the call a
  login makes once the server has accepted it, writes exactly three entries when it is
  given an address that is not empty: \<open>phone\<close>, \<open>password\<close> and \<open>api_url\<close>, and leaves
  every other entry and the rest of the client as they were. Logout deletes the entries
  \<open>phone\<close> and \<open>password\<close> and no other: the \<open>api_url\<close> entry stays.
\<close>

theorem credentials_lifecycle:
  assumes "kr_fault env = (\<lambda>op stored. None)"
  shows "(url \<noteq> [] \<longrightarrow>
            save_credentials env p w (Some url) s =
              s\<lparr> keyring := (keyring s)(''phone'' \<mapsto> p, ''password'' \<mapsto> w, ''api_url'' \<mapsto> url) \<rparr>)
     \<and> keyring (snd (logout env s)) = (keyring s)(''phone'' := None, ''password'' := None)"
  using save_credentials_ok [OF assms, of url p w s] logout_keeps_url [OF assms, of s]
  by blast

theorem credentials_lifecycle_witness:
  "default_base_url \<noteq> []
   \<and> keyring saved_service ''phone'' = Some ''+48111222333''
   \<and> keyring saved_service ''password'' = Some ''pw''
   \<and> keyring saved_service ''api_url'' = Some default_base_url
   \<and> keyring saved_service ''token'' = None
   \<and> keyring (snd (logout refusing_env saved_service)) ''phone'' = None
   \<and> keyring (snd (logout refusing_env saved_service)) ''password'' = None"
proof -
  have kr: "kr_fault refusing_env = (\<lambda>op stored. None)"
    by (simp add: refusing_env_def)
  have ne: "default_base_url \<noteq> []"
    by (simp add: default_base_url_def)
  note main = credentials_lifecycle [OF kr]
  from main [where url = default_base_url and p = "''+48111222333''" and w = "''pw''"
      and s = fresh_service] ne
  have a: "keyring saved_service =
     (keyring fresh_service)(''phone'' \<mapsto> ''+48111222333'', ''password'' \<mapsto> ''pw'',
        ''api_url'' \<mapsto> default_base_url)"
    by (simp add: saved_service_def)
  from main [where s = saved_service and url = "[]"]
  have b: "keyring (snd (logout refusing_env saved_service)) =
     (keyring saved_service)(''phone'' := None, ''password'' := None)"
    by blast
  show ?thesis
    using ne by (simp add: a b fresh_service_def new_api_service_def)
qed

text \<open>
  C8 as stated, "all of them are deleted on logout", fails for the third entry: after the
  three entries are saved and the client logs out, the keyring still holds the address.
\<close>

theorem logout_keeps_api_url:
  "keyring saved_service ''api_url'' = Some default_base_url
   \<and> keyring (snd (logout refusing_env saved_service)) ''api_url'' = Some default_base_url"
proof -
  have kr: "kr_fault refusing_env = (\<lambda>op stored. None)"
    by (simp add: refusing_env_def)
  have ne: "default_base_url \<noteq> []"
    by (simp add: default_base_url_def)
  have "keyring saved_service =
     (keyring fresh_service)(''phone'' \<mapsto> ''+48111222333'', ''password'' \<mapsto> ''pw'',
        ''api_url'' \<mapsto> default_base_url)"
    using save_credentials_ok [OF kr ne, of "''+48111222333''" "''pw''" fresh_service]
    by (simp add: saved_service_def)
  then show ?thesis
    by (simp add: logout_keeps_url [OF kr])
qed

end
